theory Spec2Isabelle
  imports Complex_Main "HOL-Library.Log_Nat"
begin

section \<open>Errors and numbers\<close>

text \<open>
  The lessons raise \<open>ValueError\<close> and \<open>TypeError\<close>; the message is kept. A method that
  mutates its object is a function from the object to a pair: what the call gives its
  caller (\<open>Inl\<close> an exception, \<open>Inr\<close> the returned value) and the object as the call
  leaves it, so that "unchanged on error" is a statement about the second component.

  A Python float is an IEEE 754 binary64 number: a rational with a 53-bit significand,
  an infinity, or NaN (the sign of zero is not kept: no operation below reads it).
  \<open>fl\<close> rounds a rational to the nearest such number, ties to the even significand,
  with gradual underflow below \<open>2 ^ -1022\<close> and overflow to an infinity from
  \<open>2 ^ 1024\<close>; a float literal \<open>0.085\<close> is \<open>fl (85 / 1000)\<close>, and each arithmetic
  operation rounds its exact result. Numbers are floats where the lessons document or
  annotate them so; an \<open>int\<close> argument below \<open>2 ^ 53\<close> acts as the float of its value.
\<close>

datatype error = ValueError string | TypeError string | OverflowError string

datatype pyfloat = Fin rat | PInf | NInf | NaN

definition round_half_even :: "rat \<Rightarrow> int" where
  "round_half_even x =
     (let n = \<lfloor>x\<rfloor>; r = x - of_int n
      in if r < 1 / 2 then n
         else if 1 / 2 < r then n + 1
         else if even n then n else n + 1)"

definition pow2 :: "int \<Rightarrow> rat" where
  "pow2 e = (if 0 \<le> e then 2 ^ nat e else 1 / 2 ^ nat (- e))"

definition floor_log2 :: "rat \<Rightarrow> int" where
  \<comment> \<open>for \<open>0 < x\<close>, the \<open>e\<close> with \<open>2 ^ e \<le> x < 2 ^ (e + 1)\<close>\<close>
  "floor_log2 x =
     (case quotient_of x of
        (p, q) \<Rightarrow> (let e = bitlen p - bitlen q in if pow2 e \<le> x then e else e - 1))"

definition fl :: "rat \<Rightarrow> pyfloat" where
  \<comment> \<open>round to nearest binary64, ties to even: \<open>m\<close> is the significand as an integer of
      at most 53 bits (\<open>2 ^ 53 = 9007199254740992\<close>), \<open>e\<close> the exponent\<close>
  "fl x =
     (if x = 0 then Fin 0
      else (let e = max (floor_log2 \<bar>x\<bar>) (- 1022);
                m = round_half_even (x / pow2 (e - 52))
            in if 1024 \<le> e \<or> (e = 1023 \<and> 9007199254740992 \<le> \<bar>m\<bar>)
               then (if 0 < x then PInf else NInf)
               else Fin (of_int m * pow2 (e - 52))))"

fun fneg :: "pyfloat \<Rightarrow> pyfloat" where
  "fneg (Fin x) = Fin (- x)"
| "fneg PInf = NInf"
| "fneg NInf = PInf"
| "fneg NaN = NaN"

fun fadd :: "pyfloat \<Rightarrow> pyfloat \<Rightarrow> pyfloat" where
  "fadd (Fin x) (Fin y) = fl (x + y)"
| "fadd NaN b = NaN"
| "fadd a NaN = NaN"
| "fadd PInf NInf = NaN"
| "fadd NInf PInf = NaN"
| "fadd PInf b = PInf"
| "fadd NInf b = NInf"
| "fadd a PInf = PInf"
| "fadd a NInf = NInf"

definition fsub :: "pyfloat \<Rightarrow> pyfloat \<Rightarrow> pyfloat" where
  "fsub a b = fadd a (fneg b)"

fun fmul :: "pyfloat \<Rightarrow> pyfloat \<Rightarrow> pyfloat" where
  "fmul (Fin x) (Fin y) = fl (x * y)"
| "fmul NaN b = NaN"
| "fmul a NaN = NaN"
| "fmul (Fin x) b = (if x = 0 then NaN else if (0 < x) = (b = PInf) then PInf else NInf)"
| "fmul a (Fin y) = (if y = 0 then NaN else if (0 < y) = (a = PInf) then PInf else NInf)"
| "fmul a b = (if a = b then PInf else NInf)"

definition fdiv100 :: "pyfloat \<Rightarrow> pyfloat" where
  \<comment> \<open>\<open>a / 100\<close>\<close>
  "fdiv100 a = (case a of Fin x \<Rightarrow> fl (x / 100) | _ \<Rightarrow> a)"

fun flt :: "pyfloat \<Rightarrow> pyfloat \<Rightarrow> bool" where
  \<comment> \<open>\<open>a < b\<close>; a comparison with NaN is false\<close>
  "flt (Fin x) (Fin y) = (x < y)"
| "flt NaN b = False"
| "flt a NaN = False"
| "flt NInf NInf = False"
| "flt NInf b = True"
| "flt a PInf = (a \<noteq> PInf)"
| "flt a b = False"

definition fle :: "pyfloat \<Rightarrow> pyfloat \<Rightarrow> bool" where
  \<comment> \<open>\<open>a <= b\<close>\<close>
  "fle a b = (flt a b \<or> (a = b \<and> a \<noteq> NaN))"

definition int_to_float :: "int \<Rightarrow> error + pyfloat" where
  \<comment> \<open>the conversion that \<open>float * int\<close> makes of its \<open>int\<close> operand\<close>
  "int_to_float n =
     (case fl (of_int n) of
        Fin x \<Rightarrow> Inr (Fin x)
      | _ \<Rightarrow> Inl (OverflowError ''int too large to convert to float''))"

definition py_round2 :: "pyfloat \<Rightarrow> pyfloat" where
  \<comment> \<open>\<open>round(a, 2)\<close>: the float nearest to the decimal with two places that is nearest
      to the exact value of \<open>a\<close>, ties to the even digit; infinities and NaN round to
      themselves\<close>
  "py_round2 a =
     (case a of Fin x \<Rightarrow> fl (of_int (round_half_even (x * 100)) / 100) | _ \<Rightarrow> a)"

definition upper_char :: "char \<Rightarrow> char" where
  "upper_char c =
     (let n = (of_char c :: nat) in if 97 \<le> n \<and> n \<le> 122 then char_of (n - 32) else c)"

definition upper :: "string \<Rightarrow> string" where
  \<comment> \<open>\<open>str.upper()\<close> on ASCII text\<close>
  "upper s = map upper_char s"

section \<open>08_comprehensive_project.py: Address and Money\<close>

record address =
  street :: string
  city :: string
  state :: string
  zip_code :: string
  country :: string

definition Address_eq :: "address \<Rightarrow> address \<Rightarrow> bool" where
  \<comment> \<open>\<open>Address.__eq__\<close>, both arguments being addresses\<close>
  "Address_eq a other =
     (street a = street other \<and> city a = city other \<and>
      state a = state other \<and> zip_code a = zip_code other)"

record money =
  amount :: pyfloat
  currency :: string

definition Money_init :: "pyfloat \<Rightarrow> string \<Rightarrow> error + money" where
  "Money_init a c =
     (if flt a (Fin 0) then Inl (ValueError ''Amount cannot be negative'')
      else Inr \<lparr>amount = py_round2 a, currency = upper c\<rparr>)"

definition Money_add :: "money \<Rightarrow> money \<Rightarrow> error + money" where
  \<comment> \<open>\<open>Money.__add__\<close>; the \<open>isinstance\<close> test holds by the type of \<open>other\<close>\<close>
  "Money_add m other =
     (if currency m \<noteq> currency other
      then Inl (ValueError (''Cannot add '' @ currency m @ '' and '' @ currency other))
      else Money_init (fadd (amount m) (amount other)) (currency m))"

datatype number = Py_int int | Py_float pyfloat

fun negative :: "number \<Rightarrow> bool" where
  \<comment> \<open>\<open>scalar < 0\<close>\<close>
  "negative (Py_int n) = (n < 0)"
| "negative (Py_float f) = flt f (Fin 0)"

fun to_float :: "number \<Rightarrow> error + pyfloat" where
  \<comment> \<open>the operand of a product with a float: an \<open>int\<close> is converted\<close>
  "to_float (Py_int n) = int_to_float n"
| "to_float (Py_float f) = Inr f"

definition Money_mul :: "money \<Rightarrow> number \<Rightarrow> error + money" where
  \<comment> \<open>\<open>Money.__mul__\<close>; the scalar is an \<open>int\<close> or a float by its type\<close>
  "Money_mul m scalar =
     (if negative scalar then Inl (ValueError ''Cannot multiply by negative number'')
      else (case to_float scalar of
              Inl e \<Rightarrow> Inl e
            | Inr f \<Rightarrow> Money_init (fmul (amount m) f) (currency m)))"

definition money_ok :: "money \<Rightarrow> bool" where
  \<comment> \<open>what \<open>Money.__init__\<close> establishes for the amount: it is not below zero\<close>
  "money_ok m = (\<not> flt (amount m) (Fin 0))"

section \<open>08_comprehensive_project.py: User\<close>

text \<open>
  \<open>hashlib.sha256(...).hexdigest()\<close>, \<open>uuid.uuid4()\<close> and \<open>datetime.now()\<close> are not
  code of the lessons: the hash function \<open>H\<close>, the generated identifier and the clock
  reading are parameters.
\<close>

record user =
  user_id :: string
  username :: string
  email :: string
  password_hash :: string
  addresses :: "address list"
  created_at :: nat
  is_active :: bool

definition hash_password :: "(string \<Rightarrow> string) \<Rightarrow> string \<Rightarrow> string" where
  "hash_password H password = H password"

definition User_init ::
  "(string \<Rightarrow> string) \<Rightarrow> string \<Rightarrow> nat \<Rightarrow> string \<Rightarrow> string \<Rightarrow> string \<Rightarrow> user" where
  "User_init H uid now uname mail password =
     \<lparr>user_id = uid, username = uname, email = mail,
      password_hash = hash_password H password, addresses = [],
      created_at = now, is_active = True\<rparr>"

definition verify_password :: "(string \<Rightarrow> string) \<Rightarrow> string \<Rightarrow> user \<Rightarrow> bool" where
  "verify_password H password u = (hash_password H password = password_hash u)"

definition change_password ::
  "(string \<Rightarrow> string) \<Rightarrow> string \<Rightarrow> string \<Rightarrow> user \<Rightarrow> (error + bool) \<times> user" where
  "change_password H old_password new_password u =
     (if \<not> verify_password H old_password u then (Inr False, u)
      else if length new_password < 8
      then (Inl (ValueError ''Password must be at least 8 characters''), u)
      else (Inr True, u\<lparr>password_hash := hash_password H new_password\<rparr>))"

definition add_address :: "address \<Rightarrow> user \<Rightarrow> user" where
  \<comment> \<open>\<open>address not in self._addresses\<close> compares with \<open>Address.__eq__\<close>\<close>
  "add_address a u =
     (if \<not> list_ex (\<lambda>b. Address_eq b a) (addresses u)
      then u\<lparr>addresses := addresses u @ [a]\<rparr> else u)"

section \<open>03_encapsulation.py: BankAccount\<close>

text \<open>
  The methods of \<open>BankAccount\<close> answer with a formatted string. An f-string is kept as
  the list of its pieces: literal text, and numbers formatted with \<open>:.2f\<close>.
\<close>

datatype piece = Str string | Fix2 pyfloat

type_synonym fstring = "piece list"

record transaction =
  tx_type :: string
  tx_amount :: pyfloat
  tx_description :: fstring
  tx_timestamp :: string

record bank_account =
  owner_name :: string
  account_creation_date :: string
  account_number :: nat
  balance :: pyfloat
  pin :: "string option"
  is_locked :: bool
  transaction_history :: "transaction list"

definition BankAccount_init :: "nat \<Rightarrow> string \<Rightarrow> pyfloat \<Rightarrow> error + bank_account" where
  \<comment> \<open>the first argument is the class counter \<open>_next_account_number\<close>\<close>
  "BankAccount_init next_account_number owner initial_balance =
     (if flt initial_balance (Fin 0)
      then Inl (ValueError ''Initial balance cannot be negative'')
      else Inr \<lparr>owner_name = owner, account_creation_date = ''2024-01-01'',
                account_number = next_account_number, balance = initial_balance,
                pin = None, is_locked = False, transaction_history = []\<rparr>)"

definition add_transaction ::
  "string \<Rightarrow> pyfloat \<Rightarrow> fstring \<Rightarrow> bank_account \<Rightarrow> bank_account" where
  "add_transaction ty amt descr a =
     a\<lparr>transaction_history := transaction_history a @
         [\<lparr>tx_type = ty, tx_amount = amt, tx_description = descr,
           tx_timestamp = ''2024-01-01 12:00:00''\<rparr>]\<rparr>"

definition isdigit :: "string \<Rightarrow> bool" where
  \<comment> \<open>\<open>str.isdigit()\<close> on ASCII text\<close>
  "isdigit s = (s \<noteq> [] \<and> list_all (\<lambda>c. 48 \<le> (of_char c :: nat) \<and> (of_char c :: nat) \<le> 57) s)"

definition set_pin :: "string \<Rightarrow> bank_account \<Rightarrow> (error + fstring) \<times> bank_account" where
  "set_pin new_pin a =
     (if is_locked a then (Inr [Str ''Account is locked. Cannot change PIN.''], a)
      else if length new_pin \<noteq> 4 \<or> \<not> isdigit new_pin
      then (Inr [Str ''PIN must be a 4-digit string.''], a)
      else (Inr [Str ''PIN set successfully.''],
            add_transaction ''PIN_SET'' (Fin 0) [Str ''PIN has been set''] (a\<lparr>pin := Some new_pin\<rparr>)))"

definition verify_pin :: "string \<Rightarrow> bank_account \<Rightarrow> bool" where
  "verify_pin entered_pin a =
     (case pin a of None \<Rightarrow> False | Some p \<Rightarrow> p = entered_pin)"

definition withdraw ::
  "pyfloat \<Rightarrow> string \<Rightarrow> bank_account \<Rightarrow> (error + fstring) \<times> bank_account" where
  "withdraw amt entered_pin a =
     (if is_locked a
      then (Inr [Str ''Account is locked. Please contact customer service.''], a)
      else if \<not> verify_pin entered_pin a
      then (Inr [Str ''Invalid PIN. Withdrawal denied.''], a)
      else if fle amt (Fin 0)
      then (Inr [Str ''Withdrawal amount must be positive.''], a)
      else if flt (balance a) amt
      then (Inr [Str ''Insufficient funds. Available balance: $'', Fix2 (balance a)], a)
      else (let a' = add_transaction ''WITHDRAWAL'' (fneg amt) [Str ''Withdrew $'', Fix2 amt]
                       (a\<lparr>balance := fsub (balance a) amt\<rparr>)
            in (Inr [Str ''Successfully withdrew $'', Fix2 amt,
                     Str ''. New balance: $'', Fix2 (balance a')], a')))"

section \<open>08_comprehensive_project.py: products\<close>

text \<open>
  \<open>Product\<close> is abstract; \<open>Book\<close>, \<open>Electronics\<close> and \<open>Clothing\<close> add their fields and
  their two methods. A product object is shared between the cart lines and the order
  lines that name it, so products live in a store and are named by address.
\<close>

datatype product_kind =
    Book string string int              \<comment> \<open>author, isbn, pages\<close>
  | Electronics string string pyfloat int \<comment> \<open>brand, model, weight, warranty months\<close>
  | Clothing string string string string \<comment> \<open>brand, size, color, material\<close>

record product =
  product_id :: nat
  name :: string
  price :: money
  description :: string
  in_stock :: bool
  kind :: product_kind

definition py_max :: "pyfloat \<Rightarrow> pyfloat \<Rightarrow> pyfloat" where
  \<comment> \<open>\<open>max(a, b)\<close>: the first argument unless the second is greater\<close>
  "py_max a b = (if flt a b then b else a)"

definition get_shipping_weight :: "product \<Rightarrow> error + pyfloat" where
  \<comment> \<open>\<open>self._pages * 0.005\<close> converts the \<open>int\<close> number of pages\<close>
  "get_shipping_weight p =
     (case kind p of
        Book author isbn pages \<Rightarrow>
          (case int_to_float pages of
             Inl e \<Rightarrow> Inl e
           | Inr f \<Rightarrow> Inr (py_max (fl (5 / 10)) (fmul f (fl (5 / 1000)))))
      | Electronics brand model weight warranty \<Rightarrow> Inr weight
      | Clothing brand sz color material \<Rightarrow> Inr (fl (8 / 10)))"

definition apply_discount :: "product \<Rightarrow> pyfloat \<Rightarrow> error + pyfloat" where
  "apply_discount p percentage =
     (if \<not> (fle (Fin 0) percentage \<and> fle percentage (Fin 100))
      then Inl (ValueError ''Discount percentage must be between 0 and 100'')
      else (let discount_amount = fmul (amount (price p)) (fdiv100 percentage)
            in Inr (fsub (amount (price p)) discount_amount)))"

definition isinstance_Discountable :: "product \<Rightarrow> error + bool" where
  \<comment> \<open>\<open>isinstance(item.product, Discountable)\<close>: the lesson declares
      \<open>class Discountable(Protocol)\<close> without \<open>@runtime_checkable\<close>, and an instance check
      against such a class raises\<close>
  "isinstance_Discountable p =
     Inl (TypeError ''Instance and class checks can only be used with @runtime_checkable protocols'')"

section \<open>08_comprehensive_project.py: the cart\<close>

text \<open>
  A \<open>CartItem\<close> is an object too: \<open>add_item\<close> and \<open>update_quantity\<close> assign to the
  \<open>quantity\<close> of a line in place. The store holds the products and the cart items by
  address, with the next free address for a new \<open>CartItem\<close>; a cart and an order hold
  lists of addresses.
\<close>

type_synonym ref = nat

record cart_item =
  product :: ref
  quantity :: int

record store =
  products :: "ref \<Rightarrow> product"
  cart_items :: "ref \<Rightarrow> cart_item"
  next_item :: ref

record shopping_cart =
  cart_user :: user
  items :: "ref list"
  cart_created_at :: nat

definition Product_eq :: "store \<Rightarrow> ref \<Rightarrow> ref \<Rightarrow> bool" where
  \<comment> \<open>\<open>Product.__eq__\<close>: the ids are compared\<close>
  "Product_eq s p other = (product_id (products s p) = product_id (products s other))"

definition CartItem_init :: "store \<Rightarrow> ref \<Rightarrow> int \<Rightarrow> error + cart_item" where
  "CartItem_init s p q =
     (if q \<le> 0 then Inl (ValueError ''Quantity must be positive'')
      else if \<not> in_stock (products s p) then Inl (ValueError ''Product is out of stock'')
      else Inr \<lparr>product = p, quantity = q\<rparr>)"

definition new_item :: "cart_item \<Rightarrow> store \<Rightarrow> store" where
  \<comment> \<open>the new object is at address \<open>next_item s\<close>\<close>
  "new_item ci s =
     s\<lparr>cart_items := (cart_items s)(next_item s := ci), next_item := Suc (next_item s)\<rparr>"

definition total_price :: "store \<Rightarrow> cart_item \<Rightarrow> error + money" where
  "total_price s ci = Money_mul (price (products s (product ci))) (Py_int (quantity ci))"

definition ShoppingCart_init :: "user \<Rightarrow> nat \<Rightarrow> shopping_cart" where
  "ShoppingCart_init u now = \<lparr>cart_user = u, items = [], cart_created_at = now\<rparr>"

fun find_line :: "store \<Rightarrow> ref \<Rightarrow> ref list \<Rightarrow> ref option" where
  \<comment> \<open>\<open>for item in self._items: if item.product == product\<close>: the first such line\<close>
  "find_line s p [] = None"
| "find_line s p (r # rs) =
     (if Product_eq s (product (cart_items s r)) p then Some r else find_line s p rs)"

definition add_item ::
  "ref \<Rightarrow> int \<Rightarrow> store \<times> shopping_cart \<Rightarrow> (error + unit) \<times> store \<times> shopping_cart" where
  "add_item p q sc =
     (let s = fst sc; c = snd sc
      in if \<not> in_stock (products s p)
         then (Inl (ValueError (name (products s p) @ '' is out of stock'')), s, c)
         else (case find_line s p (items c) of
                 Some r \<Rightarrow>
                   (Inr (),
                    s\<lparr>cart_items := (cart_items s)
                        (r := (cart_items s r)\<lparr>quantity := quantity (cart_items s r) + q\<rparr>)\<rparr>,
                    c)
               | None \<Rightarrow>
                   (case CartItem_init s p q of
                      Inl e \<Rightarrow> (Inl e, s, c)
                    | Inr ci \<Rightarrow>
                        (Inr (), new_item ci s, c\<lparr>items := items c @ [next_item s]\<rparr>))))"

definition remove_item ::
  "ref \<Rightarrow> store \<times> shopping_cart \<Rightarrow> (error + unit) \<times> store \<times> shopping_cart" where
  "remove_item p sc =
     (let s = fst sc; c = snd sc
      in (Inr (), s,
          c\<lparr>items := filter (\<lambda>r. \<not> Product_eq s (product (cart_items s r)) p) (items c)\<rparr>))"

definition update_quantity ::
  "ref \<Rightarrow> int \<Rightarrow> store \<times> shopping_cart \<Rightarrow> (error + unit) \<times> store \<times> shopping_cart" where
  "update_quantity p new_quantity sc =
     (let s = fst sc; c = snd sc
      in if new_quantity \<le> 0 then remove_item p sc
         else (case find_line s p (items c) of
                 Some r \<Rightarrow>
                   (Inr (),
                    s\<lparr>cart_items := (cart_items s)
                        (r := (cart_items s r)\<lparr>quantity := new_quantity\<rparr>)\<rparr>,
                    c)
               | None \<Rightarrow> (Inl (ValueError ''Product not in cart''), s, c)))"

definition clear :: "store \<times> shopping_cart \<Rightarrow> (error + unit) \<times> store \<times> shopping_cart" where
  "clear sc = (Inr (), fst sc, (snd sc)\<lparr>items := []\<rparr>)"

definition apply_discount_to_item ::
  "ref \<Rightarrow> pyfloat \<Rightarrow> store \<times> shopping_cart \<Rightarrow> (error + unit) \<times> store \<times> shopping_cart" where
  "apply_discount_to_item p percentage sc =
     (let s = fst sc; c = snd sc
      in case find_line s p (items c) of
           None \<Rightarrow> (Inl (ValueError ''Product not in cart''), s, c)
         | Some r \<Rightarrow>
             (let pr = product (cart_items s r)
              in case isinstance_Discountable (products s pr) of
                   Inl e \<Rightarrow> (Inl e, s, c)
                 | Inr False \<Rightarrow> (Inr (), s, c)
                 | Inr True \<Rightarrow>
                     (case apply_discount (products s pr) percentage of
                        Inl e \<Rightarrow> (Inl e, s, c)
                      | Inr discounted_price \<Rightarrow>
                          (case Money_init discounted_price
                                  (currency (price (products s pr))) of
                             Inl e \<Rightarrow> (Inl e, s, c)
                           | Inr m \<Rightarrow>
                               (Inr (),
                                s\<lparr>products := (products s)
                                    (pr := (products s pr)\<lparr>price := m\<rparr>)\<rparr>,
                                c)))))"

section \<open>08_comprehensive_project.py: payment methods\<close>

text \<open>
  \<open>Payable\<close> is abstract, with \<open>CreditCard\<close> and \<open>PayPal\<close> below it. The clock and the
  identifier that \<open>uuid.uuid4()\<close> draws are read from an environment. So is the builtin
  \<open>sum\<close> on a sequence of floats, which is not code of the lessons either and differs
  between versions of Python (addition from left to right up to 3.11, a compensated
  sum from 3.12). The dictionary a payment returns is a record of its keys, an absent
  key being \<open>None\<close>.
\<close>

record env =
  current_year :: int
  current_month :: int
  uuid4 :: string
  float_sum :: "pyfloat list \<Rightarrow> pyfloat"

datatype payable =
    CreditCard string string int int string  \<comment> \<open>masked number, holder, expiry month, expiry year, cvv\<close>
  | PayPal string string bool                \<comment> \<open>email, password hash, verified\<close>

record payment_result =
  success :: bool
  result_error :: "string option"
  result_transaction_id :: "string option"
  result_amount :: "pyfloat option"
  result_method :: "string option"
  result_card :: "string option"
  result_account :: "string option"

definition mask_card_number :: "string \<Rightarrow> string" where
  "mask_card_number card_number =
     ''**** **** **** '' @ drop (length card_number - 4) card_number"

definition CreditCard_init :: "string \<Rightarrow> string \<Rightarrow> int \<Rightarrow> int \<Rightarrow> string \<Rightarrow> payable" where
  "CreditCard_init card_number holder expiry_month expiry_year cvv =
     CreditCard (mask_card_number card_number) holder expiry_month expiry_year cvv"

definition PayPal_init :: "(string \<Rightarrow> string) \<Rightarrow> string \<Rightarrow> string \<Rightarrow> payable" where
  "PayPal_init H mail password = PayPal mail (H password) True"

fun validate_payment_info :: "env \<Rightarrow> payable \<Rightarrow> bool" where
  "validate_payment_info e (CreditCard number holder expiry_month expiry_year cvv) =
     (if expiry_year < current_year e then False
      else if expiry_year = current_year e \<and> expiry_month < current_month e then False
      else if length cvv \<notin> {3, 4} then False
      else True)"
| "validate_payment_info e (PayPal mail pw verified) = (CHR ''@'' \<in> set mail \<and> verified)"

fun Payable_process_payment :: "env \<Rightarrow> payable \<Rightarrow> pyfloat \<Rightarrow> payment_result" where
  "Payable_process_payment e (CreditCard number holder expiry_month expiry_year cvv) amt =
     (if \<not> validate_payment_info e (CreditCard number holder expiry_month expiry_year cvv)
      then \<lparr>success = False, result_error = Some ''Invalid payment information'',
            result_transaction_id = None, result_amount = None, result_method = None,
            result_card = None, result_account = None\<rparr>
      else \<lparr>success = True, result_error = None,
            result_transaction_id = Some (uuid4 e), result_amount = Some amt,
            result_method = Some ''Credit Card'', result_card = Some number,
            result_account = None\<rparr>)"
| "Payable_process_payment e (PayPal mail pw verified) amt =
     (if \<not> validate_payment_info e (PayPal mail pw verified)
      then \<lparr>success = False, result_error = Some ''Invalid PayPal account'',
            result_transaction_id = None, result_amount = None, result_method = None,
            result_card = None, result_account = None\<rparr>
      else \<lparr>success = True, result_error = None,
            result_transaction_id = Some (''PP_'' @ take 8 (uuid4 e)), result_amount = Some amt,
            result_method = Some ''PayPal'', result_card = None,
            result_account = Some mail\<rparr>)"

section \<open>08_comprehensive_project.py: Order\<close>

record order =
  order_id :: string
  order_user :: user
  order_items :: "ref list"
  shipping_address :: address
  order_created_at :: nat
  status :: string
  payment_method :: "payable option"
  transaction_id :: "string option"

fun copy_items :: "store \<Rightarrow> ref list \<Rightarrow> error + (ref list \<times> store)" where
  \<comment> \<open>\<open>[CartItem(item.product, item.quantity) for item in cart._items]\<close>: a new object
      for each line, in order; the first constructor that raises ends the comprehension\<close>
  "copy_items s [] = Inr ([], s)"
| "copy_items s (r # rs) =
     (case CartItem_init s (product (cart_items s r)) (quantity (cart_items s r)) of
        Inl e \<Rightarrow> Inl e
      | Inr ci \<Rightarrow>
          (case copy_items (new_item ci s) rs of
             Inl e \<Rightarrow> Inl e
           | Inr (rs', s') \<Rightarrow> Inr (next_item s # rs', s')))"

definition Order_init ::
  "string \<Rightarrow> nat \<Rightarrow> user \<Rightarrow> shopping_cart \<Rightarrow> address \<Rightarrow> store \<Rightarrow> (error + order) \<times> store" where
  \<comment> \<open>the first two arguments are the drawn identifier and the clock reading\<close>
  "Order_init oid now u c addr s =
     (if items c = [] then (Inl (ValueError ''Cannot create order with empty cart''), s)
      else (case copy_items s (items c) of
              Inl e \<Rightarrow> (Inl e, s)
            | Inr (rs, s') \<Rightarrow>
                (Inr \<lparr>order_id = oid, order_user = u, order_items = rs,
                      shipping_address = addr, order_created_at = now,
                      status = ''Pending'', payment_method = None, transaction_id = None\<rparr>,
                 s')))"

fun sum_total_price :: "store \<Rightarrow> money \<Rightarrow> ref list \<Rightarrow> error + money" where
  \<comment> \<open>\<open>sum((item.total_price for item in self._items), start)\<close>\<close>
  "sum_total_price s acc [] = Inr acc"
| "sum_total_price s acc (r # rs) =
     (case total_price s (cart_items s r) of
        Inl e \<Rightarrow> Inl e
      | Inr t \<Rightarrow>
          (case Money_add acc t of
             Inl e \<Rightarrow> Inl e
           | Inr acc' \<Rightarrow> sum_total_price s acc' rs))"

definition line_weight :: "store \<Rightarrow> cart_item \<Rightarrow> error + pyfloat" where
  \<comment> \<open>\<open>item.product.get_shipping_weight() * item.quantity\<close>\<close>
  "line_weight s ci =
     (case get_shipping_weight (products s (product ci)) of
        Inl e \<Rightarrow> Inl e
      | Inr w \<Rightarrow>
          (case int_to_float (quantity ci) of
             Inl e \<Rightarrow> Inl e
           | Inr q \<Rightarrow> Inr (fmul w q)))"

fun line_weights :: "store \<Rightarrow> ref list \<Rightarrow> error + pyfloat list" where
  \<comment> \<open>the values of the generator that \<open>sum\<close> consumes, up to the first that raises\<close>
  "line_weights s [] = Inr []"
| "line_weights s (r # rs) =
     (case line_weight s (cart_items s r) of
        Inl e \<Rightarrow> Inl e
      | Inr w \<Rightarrow>
          (case line_weights s rs of
             Inl e \<Rightarrow> Inl e
           | Inr ws \<Rightarrow> Inr (w # ws)))"

definition total_weight :: "env \<Rightarrow> store \<Rightarrow> order \<Rightarrow> error + pyfloat" where
  "total_weight e s ord =
     (case line_weights s (order_items ord) of
        Inl err \<Rightarrow> Inl err
      | Inr ws \<Rightarrow> Inr (float_sum e ws))"

definition calculate_shipping :: "env \<Rightarrow> store \<Rightarrow> order \<Rightarrow> error + money" where
  "calculate_shipping e s ord =
     (case total_weight e s ord of
        Inl err \<Rightarrow> Inl err
      | Inr w \<Rightarrow>
          (let shipping_cost =
                 (if fle w (Fin 1) then fl (599 / 100)
                  else if fle w (Fin 5) then fl (999 / 100)
                  else fl (1599 / 100))
           in Money_init shipping_cost ''USD''))"

definition calculate_tax :: "money \<Rightarrow> error + money" where
  "calculate_tax subtotal =
     (let tax_rate = fl (85 / 1000) in Money_init (fmul (amount subtotal) tax_rate) ''USD'')"

definition Order_total_amount :: "env \<Rightarrow> store \<Rightarrow> order \<Rightarrow> error + money" where
  "Order_total_amount e s ord =
     (case Money_init (Fin 0) ''USD'' of
        Inl err \<Rightarrow> Inl err
      | Inr zero \<Rightarrow>
     (case sum_total_price s zero (order_items ord) of
        Inl err \<Rightarrow> Inl err
      | Inr subtotal \<Rightarrow>
     (case calculate_shipping e s ord of
        Inl err \<Rightarrow> Inl err
      | Inr shipping \<Rightarrow>
     (case calculate_tax subtotal of
        Inl err \<Rightarrow> Inl err
      | Inr tax \<Rightarrow>
     (case Money_add subtotal shipping of
        Inl err \<Rightarrow> Inl err
      | Inr with_shipping \<Rightarrow> Money_add with_shipping tax)))))"

definition set_payment_method :: "payable \<Rightarrow> order \<Rightarrow> (error + unit) \<times> order" where
  "set_payment_method pm ord = (Inr (), ord\<lparr>payment_method := Some pm\<rparr>)"

definition process_payment :: "env \<Rightarrow> store \<Rightarrow> order \<Rightarrow> (error + bool) \<times> order" where
  "process_payment e s ord =
     (case payment_method ord of
        None \<Rightarrow> (Inl (ValueError ''Payment method not set''), ord)
      | Some pm \<Rightarrow>
          (case Order_total_amount e s ord of
             Inl err \<Rightarrow> (Inl err, ord)
           | Inr tot \<Rightarrow>
               (let result = Payable_process_payment e pm (amount tot)
                in if success result
                   then (Inr True,
                         ord\<lparr>transaction_id := result_transaction_id result, status := ''Paid''\<rparr>)
                   else (Inr False, ord\<lparr>status := ''Payment Failed''\<rparr>))))"

definition ship_order :: "order \<Rightarrow> (error + unit) \<times> order" where
  "ship_order ord =
     (if status ord \<noteq> ''Paid'' then (Inl (ValueError ''Cannot ship unpaid order''), ord)
      else (Inr (), ord\<lparr>status := ''Shipped''\<rparr>))"

definition deliver_order :: "order \<Rightarrow> (error + unit) \<times> order" where
  "deliver_order ord =
     (if status ord \<noteq> ''Shipped'' then (Inl (ValueError ''Cannot deliver unshipped order''), ord)
      else (Inr (), ord\<lparr>status := ''Delivered''\<rparr>))"

definition cancel_order :: "order \<Rightarrow> (error + unit) \<times> order" where
  "cancel_order ord =
     (if status ord \<in> set [''Shipped'', ''Delivered'']
      then (Inl (ValueError ''Cannot cancel shipped or delivered order''), ord)
      else (Inr (), ord\<lparr>status := ''Cancelled''\<rparr>))"

section \<open>Sequences of calls\<close>

text \<open>
  A caller may catch what a method raises and go on, so a sequence of calls continues
  from the object as each call leaves it.
\<close>

datatype order_op =
    Set_payment_method payable
  | Process_payment
  | Ship_order
  | Deliver_order
  | Cancel_order

fun run_order_op :: "env \<Rightarrow> store \<Rightarrow> order_op \<Rightarrow> order \<Rightarrow> order" where
  "run_order_op e s (Set_payment_method pm) ord = snd (set_payment_method pm ord)"
| "run_order_op e s Process_payment ord = snd (process_payment e s ord)"
| "run_order_op e s Ship_order ord = snd (ship_order ord)"
| "run_order_op e s Deliver_order ord = snd (deliver_order ord)"
| "run_order_op e s Cancel_order ord = snd (cancel_order ord)"

fun sets_payment_method :: "order_op \<Rightarrow> bool" where
  "sets_payment_method (Set_payment_method pm) = True"
| "sets_payment_method op = False"

definition order_statuses :: "string list" where
  "order_statuses =
     [''Pending'', ''Paid'', ''Payment Failed'', ''Shipped'', ''Delivered'', ''Cancelled'']"

datatype cart_op =
    Add_item ref int
  | Remove_item ref
  | Update_quantity ref int
  | Clear
  | Apply_discount_to_item ref pyfloat

fun run_cart_op :: "cart_op \<Rightarrow> store \<times> shopping_cart \<Rightarrow> store \<times> shopping_cart" where
  "run_cart_op (Add_item p q) sc = snd (add_item p q sc)"
| "run_cart_op (Remove_item p) sc = snd (remove_item p sc)"
| "run_cart_op (Update_quantity p q) sc = snd (update_quantity p q sc)"
| "run_cart_op Clear sc = snd (clear sc)"
| "run_cart_op (Apply_discount_to_item p percentage) sc = snd (apply_discount_to_item p percentage sc)"

definition cart_lines :: "store \<times> shopping_cart \<Rightarrow> cart_item list" where
  \<comment> \<open>the lines of the cart, read through the store\<close>
  "cart_lines sc = map (cart_items (fst sc)) (items (snd sc))"

definition order_lines :: "store \<Rightarrow> order \<Rightarrow> cart_item list" where
  \<comment> \<open>the lines of the order, read through the store\<close>
  "order_lines s ord = map (cart_items s) (order_items ord)"

definition allocated :: "store \<Rightarrow> ref list \<Rightarrow> bool" where
  \<comment> \<open>every address of the list is one that a constructor has handed out\<close>
  "allocated s rs = list_all (\<lambda>r. r < next_item s) rs"

definition apart :: "store \<Rightarrow> shopping_cart \<Rightarrow> order \<Rightarrow> bool" where
  \<comment> \<open>the lines of the cart and of the order are objects handed out by the constructor,
      and no line of the order is a line of the cart\<close>
  "apart s c ord =
     (allocated s (items c) \<and> allocated s (order_items ord) \<and>
      list_all (\<lambda>r. r \<notin> set (items c)) (order_items ord))"

definition same_for :: "order \<Rightarrow> store \<Rightarrow> store \<Rightarrow> bool" where
  \<comment> \<open>the two stores hold the same products and the same lines of the order\<close>
  "same_for ord s s' =
     (products s' = products s \<and>
      list_all (\<lambda>r. cart_items s' r = cart_items s r) (order_items ord))"

definition positive_lines :: "store \<times> shopping_cart \<Rightarrow> bool" where
  \<comment> \<open>every line of the cart has a positive quantity\<close>
  "positive_lines sc = list_all (\<lambda>ci. 0 < quantity ci) (cart_lines sc)"

fun adds_positive :: "cart_op \<Rightarrow> bool" where
  \<comment> \<open>the call is not \<open>add_item\<close> with a quantity that is not positive\<close>
  "adds_positive (Add_item p q) = (0 < q)"
| "adds_positive op = True"

section \<open>The order total as the specification words it\<close>

text \<open>
  Amounts of money are added and multiplied as floats and rounded to two decimal
  places after each operation, as \<open>Money\<close> does.
\<close>

definition line_total :: "store \<Rightarrow> ref \<Rightarrow> pyfloat" where
  \<comment> \<open>price times quantity of one line\<close>
  "line_total s r =
     py_round2 (fmul (amount (price (products s (product (cart_items s r)))))
                     (fl (of_int (quantity (cart_items s r)))))"

definition subtotal :: "store \<Rightarrow> order \<Rightarrow> pyfloat" where
  \<comment> \<open>the sum of the line totals, from zero, in the order of the lines\<close>
  "subtotal s ord =
     foldl (\<lambda>acc r. py_round2 (fadd acc (line_total s r))) (Fin 0) (order_items ord)"

definition fits_float :: "int \<Rightarrow> bool" where
  \<comment> \<open>the \<open>int\<close> converts to a float (it is below \<open>2 ^ 1024\<close> in absolute value)\<close>
  "fits_float n = (case fl (of_int n) of Fin x \<Rightarrow> True | _ \<Rightarrow> False)"

definition usd_line :: "store \<Rightarrow> ref \<Rightarrow> bool" where
  \<comment> \<open>a line as the constructors leave it (a positive quantity, a price made by
      \<open>Money\<close>) whose numbers convert to floats, priced in USD\<close>
  "usd_line s r =
     (0 < quantity (cart_items s r) \<and> fits_float (quantity (cart_items s r)) \<and>
      \<not> isl (get_shipping_weight (products s (product (cart_items s r)))) \<and>
      money_ok (price (products s (product (cart_items s r)))) \<and>
      currency (price (products s (product (cart_items s r)))) = ''USD'')"

section \<open>Objects of the demonstration\<close>

definition demo_user :: user where
  "demo_user = User_init (\<lambda>password. ''sha256:'' @ password) ''user-1'' 0
     ''john_smith'' ''john@example.com'' ''securepass123''"

definition demo_address :: address where
  "demo_address =
     \<lparr>street = ''123 Main St'', city = ''Anytown'', state = ''CA'', zip_code = ''12345'',
      country = ''USA''\<rparr>"

definition demo_book :: product where
  "demo_book =
     \<lparr>product_id = 1, name = ''Python OOP Guide'',
      price = \<lparr>amount = fl (2999 / 100), currency = ''USD''\<rparr>,
      description = ''By John Doe'', in_stock = True,
      kind = Book ''John Doe'' ''978-1234567890'' 350\<rparr>"

definition demo_laptop :: product where
  "demo_laptop =
     \<lparr>product_id = 2, name = ''Gaming Laptop'',
      price = \<lparr>amount = fl (129999 / 100), currency = ''USD''\<rparr>,
      description = ''TechBrand GX-3000'', in_stock = True,
      kind = Electronics ''TechBrand'' ''GX-3000'' (fl (55 / 10)) 24\<rparr>"

definition euro_book :: product where
  "euro_book =
     \<lparr>product_id = 3, name = ''Guide'',
      price = \<lparr>amount = Fin 10, currency = ''EUR''\<rparr>,
      description = ''By Jane Doe'', in_stock = True,
      kind = Book ''Jane Doe'' ''123'' 100\<rparr>"

definition plain_shirt :: product where
  "plain_shirt =
     \<lparr>product_id = 4, name = ''Plain T-Shirt'',
      price = \<lparr>amount = Fin 5, currency = ''USD''\<rparr>,
      description = ''FashionCo White Cotton'', in_stock = True,
      kind = Clothing ''FashionCo'' ''M'' ''White'' ''Cotton''\<rparr>"

definition light_gadget :: product where
  "light_gadget =
     \<lparr>product_id = 5, name = ''Cable'',
      price = \<lparr>amount = Fin 1, currency = ''USD''\<rparr>,
      description = ''TechBrand C-1'', in_stock = True,
      kind = Electronics ''TechBrand'' ''C-1'' (fl (2 / 10)) 12\<rparr>"

definition heavy_gadget :: product where
  "heavy_gadget =
     \<lparr>product_id = 6, name = ''Speaker'',
      price = \<lparr>amount = Fin 1, currency = ''USD''\<rparr>,
      description = ''TechBrand S-2'', in_stock = True,
      kind = Electronics ''TechBrand'' ''S-2'' (fl (16 / 10)) 12\<rparr>"

definition demo_store :: store where
  \<comment> \<open>six products, no cart item yet\<close>
  "demo_store =
     \<lparr>products = (\<lambda>r. if r = 0 then demo_book else if r = 1 then demo_laptop
                     else if r = 2 then euro_book else if r = 3 then plain_shirt
                     else if r = 4 then light_gadget else heavy_gadget),
      cart_items = (\<lambda>r. \<lparr>product = 0, quantity = 0\<rparr>),
      next_item = 0\<rparr>"

definition demo_cart :: "store \<times> shopping_cart" where
  \<comment> \<open>\<open>cart = ShoppingCart(user); cart.add_item(book, 2)\<close>\<close>
  "demo_cart = snd (add_item 0 2 (demo_store, ShoppingCart_init demo_user 0))"

definition euro_cart :: "store \<times> shopping_cart" where
  \<comment> \<open>\<open>cart = ShoppingCart(user); cart.add_item(euro_book, 1)\<close>\<close>
  "euro_cart = snd (add_item 2 1 (demo_store, ShoppingCart_init demo_user 0))"

definition demo_order :: "ref list \<Rightarrow> string \<Rightarrow> order" where
  \<comment> \<open>the order of \<open>demo_user\<close> with the given lines and status, no payment method set\<close>
  "demo_order rs st =
     \<lparr>order_id = ''order-1'', order_user = demo_user, order_items = rs,
      shipping_address = demo_address, order_created_at = 1,
      status = st, payment_method = None, transaction_id = None\<rparr>"

definition shirt_cart :: "store \<times> shopping_cart" where
  \<comment> \<open>\<open>cart = ShoppingCart(user); cart.add_item(plain_shirt, 1)\<close>\<close>
  "shirt_cart = snd (add_item 3 1 (demo_store, ShoppingCart_init demo_user 0))"

definition gadget_cart :: "store \<times> shopping_cart" where
  \<comment> \<open>\<open>cart = ShoppingCart(user); cart.add_item(light_gadget, 1);
      cart.add_item(heavy_gadget, 3)\<close>\<close>
  "gadget_cart =
     snd (add_item 5 3 (snd (add_item 4 1 (demo_store, ShoppingCart_init demo_user 0))))"

definition left_sum :: "pyfloat list \<Rightarrow> pyfloat" where
  \<comment> \<open>\<open>sum\<close> as Python up to 3.11 computes it: from the integer zero, left to right\<close>
  "left_sum ws = foldl fadd (Fin 0) ws"

definition demo_env :: env where
  "demo_env =
     \<lparr>current_year = 2024, current_month = 6,
      uuid4 = ''0f8fad5b-d9cb-469f-a165-70867728950e'', float_sum = left_sum\<rparr>"

definition demo_account :: bank_account where
  \<comment> \<open>\<open>BankAccount(owner, 100)\<close> after \<open>set_pin("1234")\<close>\<close>
  "demo_account =
     \<lparr>owner_name = ''Alice'', account_creation_date = ''2024-01-01'',
      account_number = 1000, balance = Fin 100, pin = Some ''1234'', is_locked = False,
      transaction_history =
        [\<lparr>tx_type = ''PIN_SET'', tx_amount = Fin 0, tx_description = [Str ''PIN has been set''],
          tx_timestamp = ''2024-01-01 12:00:00''\<rparr>]\<rparr>"

definition demo_ordered :: store where
  \<comment> \<open>the store after \<open>Order(user, cart, address)\<close> on \<open>demo_cart\<close>\<close>
  "demo_ordered =
     snd (Order_init ''order-1'' 1 demo_user (snd demo_cart) demo_address (fst demo_cart))"

definition euro_ordered :: store where
  \<comment> \<open>the store after \<open>Order(user, cart, address)\<close> on \<open>euro_cart\<close>\<close>
  "euro_ordered =
     snd (Order_init ''order-1'' 1 demo_user (snd euro_cart) demo_address (fst euro_cart))"

definition gadget_ordered :: store where
  \<comment> \<open>the store after \<open>Order(user, cart, address)\<close> on \<open>gadget_cart\<close>\<close>
  "gadget_ordered =
     snd (Order_init ''order-1'' 1 demo_user (snd gadget_cart) demo_address (fst gadget_cart))"

definition shirt_ordered :: store where
  \<comment> \<open>the store after \<open>Order(user, cart, address)\<close> on \<open>shirt_cart\<close>\<close>
  "shirt_ordered =
     snd (Order_init ''order-1'' 1 demo_user (snd shirt_cart) demo_address (fst shirt_cart))"

section \<open>Floats\<close>

lemma upper_USD: "upper ''USD'' = ''USD''"
  by code_simp

lemma round_half_even_lower: "x - 1 / 2 \<le> of_int (round_half_even x)"
  unfolding round_half_even_def Let_def by (auto; linarith)

lemma round_half_even_upper: "of_int (round_half_even x) \<le> x + 1 / 2"
  unfolding round_half_even_def Let_def by (auto; linarith)

lemma round_half_even_nonneg: "0 \<le> x \<Longrightarrow> 0 \<le> round_half_even x"
  unfolding round_half_even_def Let_def by (auto; linarith)

lemma round_half_even_cents: "\<bar>of_int (round_half_even (x * 100)) / 100 - x\<bar> \<le> 1 / 200"
proof -
  let ?n = "of_int (round_half_even (x * 100)) :: rat"
  have lo: "x * 100 - 1 / 2 \<le> ?n" by (rule round_half_even_lower)
  have hi: "?n \<le> x * 100 + 1 / 2" by (rule round_half_even_upper)
  from lo hi show ?thesis by (intro abs_leI; linarith)
qed

lemma pow2_pos: "0 < pow2 e"
  by (simp add: pow2_def)

text \<open>
  The exponent that \<open>fl\<close> works with is the binary logarithm of its argument, rounded
  down, and a finite \<open>fl x\<close> is within half a unit in the last place of \<open>x\<close>.
\<close>

lemma pow2_powi: "pow2 e = 2 powi e"
  by (simp add: pow2_def power_int_def power_inverse[symmetric] inverse_eq_divide power_one_over)

lemma floor_log2_bounds:
  assumes "0 < x"
  shows "pow2 (floor_log2 x) \<le> x \<and> x < pow2 (floor_log2 x + 1)"
proof -
  obtain p q where pq: "quotient_of x = (p, q)" by (cases "quotient_of x")
  from pq have q: "0 < q" by (rule quotient_of_denom_pos)
  from pq have x: "x = of_int p / of_int q" by (rule quotient_of_div)
  from assms x q have p: "0 < p" by (simp add: zero_less_divide_iff)
  from bitlen_bounds[OF p] have p1: "(2::int) ^ nat (bitlen p - 1) \<le> p" and p2: "p < 2 ^ nat (bitlen p)"
    by simp_all
  from bitlen_bounds[OF q] have q1: "(2::int) ^ nat (bitlen q - 1) \<le> q" and q2: "q < 2 ^ nat (bitlen q)"
    by simp_all
  have bp: "1 \<le> bitlen p" using p by (simp add: bitlen_alt_def)
  have bq: "1 \<le> bitlen q" using q by (simp add: bitlen_alt_def)
  have P1: "(2::rat) powi (bitlen p - 1) \<le> of_int p"
  proof -
    have "(2::rat) powi (bitlen p - 1) = of_int (2 ^ nat (bitlen p - 1))"
      using bp by (simp add: power_int_def)
    also have "\<dots> \<le> of_int p" using p1 by (simp only: of_int_le_iff)
    finally show ?thesis .
  qed
  have P2: "of_int p < (2::rat) powi (bitlen p)"
  proof -
    have "of_int p < (of_int (2 ^ nat (bitlen p)) :: rat)" using p2 by (simp only: of_int_less_iff)
    also have "\<dots> = (2::rat) powi (bitlen p)" using bp by (simp add: power_int_def)
    finally show ?thesis .
  qed
  have Q1: "(2::rat) powi (bitlen q - 1) \<le> of_int q"
  proof -
    have "(2::rat) powi (bitlen q - 1) = of_int (2 ^ nat (bitlen q - 1))"
      using bq by (simp add: power_int_def)
    also have "\<dots> \<le> of_int q" using q1 by (simp only: of_int_le_iff)
    finally show ?thesis .
  qed
  have Q2: "of_int q < (2::rat) powi (bitlen q)"
  proof -
    have "of_int q < (of_int (2 ^ nat (bitlen q)) :: rat)" using q2 by (simp only: of_int_less_iff)
    also have "\<dots> = (2::rat) powi (bitlen q)" using bq by (simp add: power_int_def)
    finally show ?thesis .
  qed
  have qpos: "(0::rat) < of_int q" using q by simp
  let ?e = "bitlen p - bitlen q"
  have up: "x < 2 powi (?e + 1)"
  proof -
    have "of_int p < (2::rat) powi (?e + 1) * 2 powi (bitlen q - 1)"
      using P2 by (simp add: power_int_add[symmetric])
    also have "\<dots> \<le> 2 powi (?e + 1) * of_int q"
      using Q1 by (intro mult_left_mono) simp_all
    finally show ?thesis using qpos by (simp add: x pos_divide_less_eq)
  qed
  have lo: "2 powi (?e - 1) \<le> x"
  proof -
    have "(2::rat) powi (?e - 1) * of_int q \<le> 2 powi (?e - 1) * 2 powi (bitlen q)"
      using Q2 by (intro mult_left_mono) simp_all
    also have "\<dots> = 2 powi (bitlen p - 1)" by (simp add: power_int_add[symmetric])
    also have "\<dots> \<le> of_int p" by (rule P1)
    finally show ?thesis using qpos by (simp add: x pos_le_divide_eq)
  qed
  show ?thesis
  proof (cases "pow2 ?e \<le> x")
    case True
    then have "floor_log2 x = ?e" by (simp add: floor_log2_def pq)
    with True up show ?thesis by (simp add: pow2_powi)
  next
    case False
    then have "floor_log2 x = ?e - 1" by (simp add: floor_log2_def pq)
    with False lo show ?thesis by (simp add: pow2_powi)
  qed
qed

lemma fl_half_ulp:
  assumes "fl x = Fin y"
  shows "\<bar>y - x\<bar> \<le> pow2 (max (floor_log2 \<bar>x\<bar>) (- 1022) - 53)"
proof (cases "x = 0")
  case True
  with assms show ?thesis using pow2_pos[of "max (floor_log2 \<bar>x\<bar>) (- 1022) - 53"]
    by (simp add: fl_def)
next
  case False
  define e where "e = max (floor_log2 \<bar>x\<bar>) (- 1022)"
  define u where "u = pow2 (e - 52)"
  define m where "m = round_half_even (x / u)"
  have u: "0 < u" unfolding u_def by (rule pow2_pos)
  from assms False have y: "y = of_int m * u"
    by (auto simp: fl_def Let_def e_def u_def m_def split: if_splits)
  have "x / u - 1 / 2 \<le> of_int m" "of_int m \<le> x / u + 1 / 2"
    unfolding m_def by (rule round_half_even_lower, rule round_half_even_upper)
  then have "\<bar>of_int m - x / u\<bar> \<le> 1 / 2" by (intro abs_leI; linarith)
  then have "\<bar>of_int m - x / u\<bar> * u \<le> 1 / 2 * u" using u by (intro mult_right_mono) simp_all
  moreover have "\<bar>of_int m - x / u\<bar> * u = \<bar>y - x\<bar>"
  proof -
    have "\<bar>of_int m - x / u\<bar> * u = \<bar>of_int m - x / u\<bar> * \<bar>u\<bar>" using u by simp
    also have "\<dots> = \<bar>(of_int m - x / u) * u\<bar>" by (simp only: abs_mult)
    also have "(of_int m - x / u) * u = y - x" using u by (simp add: y left_diff_distrib)
    finally show ?thesis .
  qed
  moreover have "1 / 2 * u = pow2 (e - 53)"
    unfolding u_def pow2_powi by (simp add: power_int_diff)
  ultimately show ?thesis by (simp add: e_def)
qed

lemma fl_not_neg: "0 \<le> x \<Longrightarrow> \<not> flt (fl x) (Fin 0)"
proof -
  assume x: "0 \<le> x"
  have m: "0 \<le> round_half_even (x / pow2 e)" for e
    using x pow2_pos[of e] by (intro round_half_even_nonneg) simp
  have "0 \<le> (of_int (round_half_even (x / pow2 e)) :: rat) * pow2 e" for e
    using m[of e] pow2_pos[of e] by simp
  then show ?thesis using x by (auto simp: fl_def Let_def not_less)
qed

lemma fle_zero_not_neg: "fle (Fin 0) a \<Longrightarrow> \<not> flt a (Fin 0)"
  by (cases a) (auto simp: fle_def)

lemma py_round2_not_neg: "\<not> flt a (Fin 0) \<Longrightarrow> \<not> flt (py_round2 a) (Fin 0)"
proof (cases a)
  case (Fin x)
  assume "\<not> flt a (Fin 0)"
  with Fin have "0 \<le> x" by simp
  then have "0 \<le> (of_int (round_half_even (x * 100)) :: rat) / 100"
    using round_half_even_nonneg[of "x * 100"] by simp
  then show ?thesis using Fin by (simp add: py_round2_def fl_not_neg)
qed (simp_all add: py_round2_def)

lemma fadd_not_neg:
  "\<not> flt a (Fin 0) \<Longrightarrow> \<not> flt b (Fin 0) \<Longrightarrow> \<not> flt (fadd a b) (Fin 0)"
  by (cases a; cases b) (simp_all add: fl_not_neg)

lemma fmul_not_neg:
  "\<not> flt a (Fin 0) \<Longrightarrow> \<not> flt b (Fin 0) \<Longrightarrow> \<not> flt (fmul a b) (Fin 0)"
  by (cases a; cases b) (auto simp: fl_not_neg)

lemma int_to_float_not_neg:
  assumes "0 \<le> n" and "int_to_float n = Inr f"
  shows "\<not> flt f (Fin 0)"
proof -
  from assms(2) have "f = fl (of_int n)"
    by (auto simp: int_to_float_def split: pyfloat.splits)
  moreover have "\<not> flt (fl (of_int n)) (Fin 0)" using assms(1) by (intro fl_not_neg) simp
  ultimately show ?thesis by simp
qed

lemma int_to_float_fits: "fits_float n \<Longrightarrow> int_to_float n = Inr (fl (of_int n))"
  by (auto simp: int_to_float_def fits_float_def split: pyfloat.splits)

text \<open>
  Values that binary64 arithmetic is known to give: 0.1, 0.1 + 0.2, 5.0 * 0.085, the
  tie at \<open>2 ^ 53 + 1\<close>, \<open>round(12.345, 2)\<close> (the float lies above the tie),
  \<open>round(0.125, 2)\<close> (an exact tie), \<open>Money(0.05) * 0.5\<close>, and the sum
  0.2 * 1 + 1.6 * 3, which exceeds 5.
\<close>

lemma fl_tenth: "fl (1 / 10) = Fin (3602879701896397 / 36028797018963968)"
  by code_simp

lemma fadd_tenth_fifth:
  "fadd (fl (1 / 10)) (fl (2 / 10)) = Fin (1351079888211149 / 4503599627370496)"
  by code_simp

lemma fmul_five_tax: "fmul (Fin 5) (fl (85 / 1000)) = Fin (1914029841632461 / 4503599627370496)"
  by code_simp

lemma fl_tie_to_even: "fl 9007199254740993 = Fin 9007199254740992"
  by code_simp

lemma py_round2_above_tie: "py_round2 (fl (12345 / 1000)) = fl (1235 / 100)"
  by code_simp

lemma py_round2_exact_tie: "py_round2 (Fin (1 / 8)) = fl (12 / 100)"
  by code_simp

lemma Money_mul_above_tie:
  "Money_mul \<lparr>amount = fl (5 / 100), currency = ''USD''\<rparr> (Py_float (fl (5 / 10)))
     = Inr \<lparr>amount = fl (3 / 100), currency = ''USD''\<rparr>"
  by code_simp

lemma left_sum_above_five:
  "left_sum [fmul (fl (2 / 10)) (Fin 1), fmul (fl (16 / 10)) (Fin 3)]
     = Fin (5629499534213121 / 1125899906842624) \<and>
   \<not> fle (left_sum [fmul (fl (2 / 10)) (Fin 1), fmul (fl (16 / 10)) (Fin 3)]) (Fin 5)"
  by code_simp

section \<open>Money\<close>

text \<open>
  C8. For a non-negative amount \<open>a\<close>, \<open>Money(a)\<close> is built and its amount is
  \<open>round(a, 2)\<close>: for a finite \<open>a\<close> it is the float nearest to a number with two decimal
  places that lies within half a cent of \<open>a\<close>; an infinite \<open>a\<close> stays infinite.
\<close>

theorem Money_init_rounds:
  assumes "fle (Fin 0) a"
  shows "\<exists>m. Money_init a c = Inr m \<and> amount m = py_round2 a \<and>
             (\<forall>x. a = Fin x \<longrightarrow>
                (\<exists>k. amount m = fl (of_int k / 100) \<and> \<bar>of_int k / 100 - x\<bar> \<le> 1 / 200)) \<and>
             (a = PInf \<longrightarrow> amount m = PInf)"
proof -
  from assms have "\<not> flt a (Fin 0)" by (rule fle_zero_not_neg)
  then have i: "Money_init a c = Inr \<lparr>amount = py_round2 a, currency = upper c\<rparr>"
    by (simp add: Money_init_def)
  have "\<exists>k. py_round2 (Fin x) = fl (of_int k / 100) \<and> \<bar>of_int k / 100 - x\<bar> \<le> 1 / 200" for x
    using round_half_even_cents[of x] by (auto simp: py_round2_def)
  moreover have "py_round2 PInf = PInf" by (simp add: py_round2_def)
  ultimately show ?thesis using i by auto
qed

theorem Money_init_rounds_witness:
  "fle (Fin 0) (fl (12345 / 1000)) \<and>
   Money_init (fl (12345 / 1000)) ''usd'' = Inr \<lparr>amount = fl (1235 / 100), currency = ''USD''\<rparr>"
proof -
  have h: "fle (Fin 0) (fl (12345 / 1000))" by code_simp
  have e: "py_round2 (fl (12345 / 1000)) = fl (1235 / 100)" "upper ''usd'' = ''USD''"
    by code_simp+
  from Money_init_rounds[OF h, of "''usd''"] h e show ?thesis
    by (auto simp: Money_init_def split: if_splits)
qed

text \<open>
  C3, as the code has it. For non-negative \<open>a\<close> and \<open>b\<close> in one currency,
  \<open>Money(a) + Money(b)\<close> is built and its amount is
  \<open>round(round(a, 2) + round(b, 2), 2)\<close>; it is the float sum \<open>a + b\<close> when \<open>a\<close>, \<open>b\<close>
  and that sum are each unchanged by \<open>round(., 2)\<close>.
\<close>

theorem Money_add_amount:
  assumes "fle (Fin 0) a" and "fle (Fin 0) b"
  shows "\<exists>x y z. Money_init a c = Inr x \<and> Money_init b c = Inr y \<and> Money_add x y = Inr z \<and>
           amount z = py_round2 (fadd (py_round2 a) (py_round2 b)) \<and>
           (py_round2 a = a \<and> py_round2 b = b \<and> py_round2 (fadd a b) = fadd a b
              \<longrightarrow> amount z = fadd a b)"
proof -
  from assms have n: "\<not> flt a (Fin 0)" "\<not> flt b (Fin 0)" by (simp_all add: fle_zero_not_neg)
  then have s: "\<not> flt (fadd (py_round2 a) (py_round2 b)) (Fin 0)"
    by (intro fadd_not_neg py_round2_not_neg)
  show ?thesis using n s by (auto simp: Money_init_def Money_add_def)
qed

theorem Money_add_amount_witness:
  "Money_init (fl (2599 / 100)) ''USD'' = Inr \<lparr>amount = fl (2599 / 100), currency = ''USD''\<rparr> \<and>
   Money_init (fl (1550 / 100)) ''USD'' = Inr \<lparr>amount = fl (1550 / 100), currency = ''USD''\<rparr> \<and>
   Money_add \<lparr>amount = fl (2599 / 100), currency = ''USD''\<rparr>
             \<lparr>amount = fl (1550 / 100), currency = ''USD''\<rparr>
     = Inr \<lparr>amount = fl (4149 / 100), currency = ''USD''\<rparr> \<and>
   fadd (fl (2599 / 100)) (fl (1550 / 100)) \<noteq> fl (4149 / 100)"
proof -
  have h: "fle (Fin 0) (fl (2599 / 100))" "fle (Fin 0) (fl (1550 / 100))" by code_simp+
  have e: "py_round2 (fl (2599 / 100)) = fl (2599 / 100)"
    "py_round2 (fl (1550 / 100)) = fl (1550 / 100)"
    "py_round2 (fadd (fl (2599 / 100)) (fl (1550 / 100))) = fl (4149 / 100)"
    "upper ''USD'' = ''USD''"
    by code_simp+
  have d: "fadd (fl (2599 / 100)) (fl (1550 / 100)) \<noteq> fl (4149 / 100)" by code_simp
  from Money_add_amount[OF h, of "''USD''"] e d show ?thesis
    by (auto simp: Money_init_def Money_add_def split: if_splits)
qed

text \<open>
  \<open>Money(0.1) + Money(0.2)\<close> has amount 0.3, and \<open>0.1 + 0.2\<close> is another float.
\<close>

theorem Money_add_amount_counterexample:
  "Money_init (fl (1 / 10)) ''USD'' = Inr \<lparr>amount = fl (1 / 10), currency = ''USD''\<rparr> \<and>
   Money_init (fl (2 / 10)) ''USD'' = Inr \<lparr>amount = fl (2 / 10), currency = ''USD''\<rparr> \<and>
   Money_add \<lparr>amount = fl (1 / 10), currency = ''USD''\<rparr> \<lparr>amount = fl (2 / 10), currency = ''USD''\<rparr>
     = Inr \<lparr>amount = fl (3 / 10), currency = ''USD''\<rparr> \<and>
   fl (3 / 10) \<noteq> fadd (fl (1 / 10)) (fl (2 / 10))"
  by code_simp

section \<open>User\<close>

text \<open>
  C6. For every user and every new password, \<open>change_password\<close> with an old password
  that does not verify against the stored hash returns \<open>False\<close> and leaves the user,
  the stored hash included, as it was.
\<close>

theorem change_password_wrong_old:
  assumes "\<not> verify_password H old_password u"
  shows "change_password H old_password new_password u = (Inr False, u)"
  using assms by (simp add: change_password_def)

theorem change_password_wrong_old_witness:
  "\<not> verify_password (\<lambda>password. ''sha256:'' @ password) ''guess'' demo_user \<and>
   change_password (\<lambda>password. ''sha256:'' @ password) ''guess'' ''short'' demo_user
     = (Inr False, demo_user)"
proof -
  have h: "\<not> verify_password (\<lambda>password. ''sha256:'' @ password) ''guess'' demo_user"
    by (simp add: verify_password_def hash_password_def demo_user_def User_init_def)
  from change_password_wrong_old[OF h] h show ?thesis by simp
qed

text \<open>
  C10. Address equality is agreement on street, city, state and zip code, and on nothing
  else: changing the country of either address does not change the answer. So
  \<open>add_address\<close> leaves the user as it was when a stored address agrees with the new one
  on the four fields, whatever the countries, and appends the new address otherwise.
\<close>

theorem Address_eq_ignores_country:
  "(Address_eq a b \<longleftrightarrow>
      street a = street b \<and> city a = city b \<and> state a = state b \<and> zip_code a = zip_code b) \<and>
   Address_eq a (b\<lparr>country := c\<rparr>) = Address_eq a b \<and>
   Address_eq (a\<lparr>country := c\<rparr>) b = Address_eq a b \<and>
   add_address a u =
     (if \<exists>b \<in> set (addresses u).
           street b = street a \<and> city b = city a \<and> state b = state a \<and> zip_code b = zip_code a
      then u else u\<lparr>addresses := addresses u @ [a]\<rparr>)"
  by (auto simp: Address_eq_def add_address_def list_ex_iff)

theorem Address_eq_ignores_country_witness:
  "country (demo_address\<lparr>country := ''Canada''\<rparr>) \<noteq> country demo_address \<and>
   Address_eq (demo_address\<lparr>country := ''Canada''\<rparr>) demo_address \<and>
   \<not> Address_eq (demo_address\<lparr>zip_code := ''54321''\<rparr>) demo_address \<and>
   add_address (demo_address\<lparr>country := ''Canada''\<rparr>) (add_address demo_address demo_user)
     = add_address demo_address demo_user \<and>
   addresses (add_address (demo_address\<lparr>zip_code := ''54321''\<rparr>)
                (add_address demo_address demo_user))
     = [demo_address, demo_address\<lparr>zip_code := ''54321''\<rparr>]"
proof -
  let ?a = "demo_address\<lparr>country := ''Canada''\<rparr>"
  let ?z = "demo_address\<lparr>zip_code := ''54321''\<rparr>"
  let ?u = "add_address demo_address demo_user"
  have m: "addresses ?u = [demo_address]"
    by (simp add: add_address_def demo_user_def User_init_def)
  have c: "country ?a \<noteq> country demo_address" "zip_code ?z \<noteq> zip_code demo_address"
    by (simp_all add: demo_address_def)
  from Address_eq_ignores_country[of ?a demo_address "''USA''" ?u]
       Address_eq_ignores_country[of ?z demo_address "''USA''" ?u] m c
  show ?thesis by simp
qed

section \<open>BankAccount\<close>

text \<open>
  C7, as the code has it. On an account with a PIN set, \<open>withdraw\<close> with that PIN and an
  amount above the balance raises nothing: it returns a message to its caller and leaves
  the account, the balance included, as it was. On an unlocked account and for a positive
  amount the message is the one about insufficient funds.
\<close>

theorem withdraw_more_than_balance:
  assumes "pin a = Some p" and "flt (balance a) amt"
  shows "(\<exists>msg. withdraw amt p a = (Inr msg, a)) \<and>
         (\<not> is_locked a \<and> flt (Fin 0) amt \<longrightarrow>
            withdraw amt p a =
              (Inr [Str ''Insufficient funds. Available balance: $'', Fix2 (balance a)], a))"
proof -
  have "\<not> fle amt (Fin 0)" if "flt (Fin 0) amt"
    using that by (cases amt) (auto simp: fle_def)
  then show ?thesis using assms by (auto simp: withdraw_def verify_pin_def)
qed

theorem withdraw_more_than_balance_witness:
  "pin demo_account = Some ''1234'' \<and> flt (balance demo_account) (Fin 250) \<and>
   withdraw (Fin 250) ''1234'' demo_account =
     (Inr [Str ''Insufficient funds. Available balance: $'', Fix2 (Fin 100)], demo_account)"
proof -
  have h: "pin demo_account = Some ''1234''" "flt (balance demo_account) (Fin 250)"
    by (simp_all add: demo_account_def)
  have l: "\<not> is_locked demo_account" "balance demo_account = Fin 100" "flt (Fin 0) (Fin 250)"
    by (simp_all add: demo_account_def)
  from withdraw_more_than_balance[OF h] h l show ?thesis by simp
qed

text \<open>
  \<open>BankAccount("Alice", 100)\<close>, \<open>set_pin("1234")\<close>, \<open>withdraw(250, "1234")\<close>: the call
  returns a string.
\<close>

theorem withdraw_raises_counterexample:
  "BankAccount_init 1000 ''Alice'' (Fin 100) =
     Inr \<lparr>owner_name = ''Alice'', account_creation_date = ''2024-01-01'',
          account_number = 1000, balance = Fin 100, pin = None, is_locked = False,
          transaction_history = []\<rparr> \<and>
   set_pin ''1234'' \<lparr>owner_name = ''Alice'', account_creation_date = ''2024-01-01'',
      account_number = 1000, balance = Fin 100, pin = None, is_locked = False,
      transaction_history = []\<rparr> = (Inr [Str ''PIN set successfully.''], demo_account) \<and>
   withdraw (Fin 250) ''1234'' demo_account =
     (Inr [Str ''Insufficient funds. Available balance: $'', Fix2 (Fin 100)], demo_account)"
  by code_simp

section \<open>The cart\<close>

lemma find_line_mem: "find_line s p rs = Some r \<Longrightarrow> r \<in> set rs"
  by (induction rs) (auto split: if_splits)

text \<open>
  Every cart operation but \<open>add_item\<close> with a quantity that is not positive keeps the
  lines of the cart at positive quantities.
\<close>

lemma positive_lines_iff:
  "positive_lines (s, c) = (\<forall>r \<in> set (items c). 0 < quantity (cart_items s r))"
  by (simp add: positive_lines_def cart_lines_def list_all_iff)

lemma add_item_positive:
  assumes "positive_lines (s, c)" and "0 < q"
  shows "positive_lines (snd (add_item p q (s, c)))"
proof (cases "find_line s p (items c)")
  case (Some r)
  from find_line_mem[OF Some] assms show ?thesis
    by (auto simp: add_item_def positive_lines_iff Some)
next
  case None
  with assms show ?thesis
    by (auto simp: add_item_def positive_lines_iff CartItem_init_def new_item_def)
qed

lemma update_quantity_positive:
  assumes "positive_lines (s, c)"
  shows "positive_lines (snd (update_quantity p q (s, c)))"
  using assms
  by (auto simp: update_quantity_def remove_item_def positive_lines_iff split: option.splits)

lemma run_cart_op_positive:
  assumes "positive_lines sc" and "adds_positive op"
  shows "positive_lines (run_cart_op op sc)"
proof -
  obtain s c where sc: "sc = (s, c)" by (cases sc)
  show ?thesis
  proof (cases op)
    case (Add_item p q)
    with assms sc add_item_positive show ?thesis by simp
  next
    case (Remove_item p)
    with assms sc show ?thesis by (auto simp: remove_item_def positive_lines_iff)
  next
    case (Update_quantity p q)
    with assms sc update_quantity_positive show ?thesis by simp
  next
    case Clear
    with assms sc show ?thesis by (simp add: clear_def positive_lines_iff)
  next
    case (Apply_discount_to_item p pct)
    with assms sc show ?thesis
      by (auto simp: apply_discount_to_item_def isinstance_Discountable_def positive_lines_iff
          Let_def split: option.splits)
  qed
qed

text \<open>
  C5. The claim is that every cart operation keeps every line of the cart at a positive
  quantity. \<open>CartItem.__init__\<close> refuses a quantity that is not positive and
  \<open>update_quantity\<close> removes the line instead of storing one, but \<open>add_item\<close> adds its
  argument to the quantity of a line already in the cart without looking at it: on the
  cart with two copies of the book, \<open>add_item(book, -5)\<close> returns normally and leaves
  the line with quantity \<open>-3\<close>.
\<close>

theorem add_item_negative_quantity:
  "cart_lines demo_cart = [\<lparr>product = 0, quantity = 2\<rparr>] \<and>
   fst (add_item 0 (- 5) demo_cart) = Inr () \<and>
   cart_lines (snd (add_item 0 (- 5) demo_cart)) = [\<lparr>product = 0, quantity = - 3\<rparr>]"
  by code_simp

section \<open>The order: status\<close>

lemma run_order_op_status:
  "status ord \<in> set order_statuses \<Longrightarrow> status (run_order_op e s op ord) \<in> set order_statuses"
  by (cases op)
     (auto simp: order_statuses_def set_payment_method_def process_payment_def ship_order_def
        deliver_order_def cancel_order_def Let_def split: option.splits sum.splits)

lemma fold_run_order_op_status:
  "status ord \<in> set order_statuses \<Longrightarrow>
   status (fold (run_order_op e s) ops ord) \<in> set order_statuses"
  by (induction ops arbitrary: ord) (simp_all add: run_order_op_status)

lemma Order_init_status:
  "Order_init oid now u c addr s = (Inr ord, s') \<Longrightarrow>
   status ord = ''Pending'' \<and> payment_method ord = None"
  by (auto simp: Order_init_def split: if_splits sum.splits prod.splits)

lemma order_status_reachable:
  assumes "Order_init oid now u c addr s0 = (Inr ord0, s1)"
  shows "status (fold (run_order_op e s) ops ord0) \<in> set order_statuses"
proof -
  from Order_init_status[OF assms] have "status ord0 \<in> set order_statuses"
    by (simp add: order_statuses_def)
  then show ?thesis by (rule fold_run_order_op_status)
qed

lemma demo_ordered_order:
  "fst (Order_init ''order-1'' 1 demo_user (snd demo_cart) demo_address (fst demo_cart))
     = Inr (demo_order [1] ''Pending'')"
  by code_simp

text \<open>
  C1, as the code has it. On an order whose status is one of the six that the methods
  assign, \<open>cancel_order\<close> succeeds, and the status becomes Cancelled, exactly when the
  status is Pending, Paid, Payment Failed or Cancelled; on a Shipped or Delivered order
  it raises and leaves the order, the status included, as it was.
\<close>

theorem cancel_order_statuses:
  assumes "status ord \<in> set order_statuses"
  shows "(cancel_order ord = (Inr (), ord\<lparr>status := ''Cancelled''\<rparr>)
            \<longleftrightarrow> status ord \<in> {''Pending'', ''Paid'', ''Payment Failed'', ''Cancelled''}) \<and>
         (status ord \<in> {''Shipped'', ''Delivered''} \<longrightarrow>
            cancel_order ord = (Inl (ValueError ''Cannot cancel shipped or delivered order''), ord))"
  using assms by (auto simp: cancel_order_def order_statuses_def)

theorem cancel_order_statuses_witness:
  "cancel_order (demo_order [1] ''Paid'') = (Inr (), demo_order [1] ''Cancelled'') \<and>
   cancel_order (demo_order [1] ''Shipped'')
     = (Inl (ValueError ''Cannot cancel shipped or delivered order''), demo_order [1] ''Shipped'')"
proof -
  have a: "status (demo_order [1] ''Paid'') \<in> set order_statuses"
    and b: "status (demo_order [1] ''Shipped'') \<in> set order_statuses"
    by (simp_all add: demo_order_def order_statuses_def)
  have u: "(demo_order [1] ''Paid'')\<lparr>status := ''Cancelled''\<rparr> = demo_order [1] ''Cancelled''"
    by (simp add: demo_order_def)
  from cancel_order_statuses[OF a] cancel_order_statuses[OF b] u show ?thesis
    by (simp add: demo_order_def)
qed

text \<open>
  An order that has been cancelled is cancelled again without an error, and Cancelled is
  none of Pending, Paid and Payment Failed.
\<close>

theorem cancel_order_counterexample:
  "fst (Order_init ''order-1'' 1 demo_user (snd demo_cart) demo_address (fst demo_cart))
     = Inr (demo_order [1] ''Pending'') \<and>
   cancel_order (demo_order [1] ''Pending'') = (Inr (), demo_order [1] ''Cancelled'') \<and>
   cancel_order (demo_order [1] ''Cancelled'') = (Inr (), demo_order [1] ''Cancelled'') \<and>
   status (demo_order [1] ''Cancelled'') \<notin> {''Pending'', ''Paid'', ''Payment Failed''}"
  by code_simp

lemma run_order_op_no_method:
  assumes "\<not> sets_payment_method op" and "payment_method ord = None"
    and "status ord = ''Pending'' \<or> status ord = ''Cancelled''"
  shows "payment_method (run_order_op e s op ord) = None \<and>
         status (run_order_op e s op ord) =
           (if op = Cancel_order \<or> status ord = ''Cancelled'' then ''Cancelled'' else ''Pending'')"
  using assms
  by (cases op) (auto simp: process_payment_def ship_order_def deliver_order_def cancel_order_def)

lemma fold_run_order_op_no_method:
  assumes "list_all (\<lambda>op. \<not> sets_payment_method op) ops" and "payment_method ord = None"
    and "status ord = ''Pending'' \<or> status ord = ''Cancelled''"
  shows "payment_method (fold (run_order_op e s) ops ord) = None \<and>
         status (fold (run_order_op e s) ops ord) =
           (if Cancel_order \<in> set ops \<or> status ord = ''Cancelled'' then ''Cancelled''
            else ''Pending'')"
  using assms
proof (induction ops arbitrary: ord)
  case Nil
  then show ?case by auto
next
  case (Cons op ops)
  let ?o = "run_order_op e s op ord"
  from Cons.prems have a: "\<not> sets_payment_method op"
    and b: "list_all (\<lambda>op. \<not> sets_payment_method op) ops"
    by simp_all
  from run_order_op_no_method[OF a Cons.prems(2) Cons.prems(3), of e s]
  have p: "payment_method ?o = None"
    and st: "status ?o = (if op = Cancel_order \<or> status ord = ''Cancelled'' then ''Cancelled'' else ''Pending'')"
    by simp_all
  from st have d: "status ?o = ''Pending'' \<or> status ?o = ''Cancelled''" by auto
  from Cons.IH[OF b p d] st show ?case by auto
qed

text \<open>
  C9, as the code has it. On an order built by the constructor and then used through
  any calls other than \<open>set_payment_method\<close>, \<open>process_payment\<close> raises and leaves the
  order as it was; its status is Pending when \<open>cancel_order\<close> is not among the calls and
  Cancelled when it is.
\<close>

theorem process_payment_without_method:
  assumes "Order_init oid now u c addr s0 = (Inr ord0, s1)"
    and "list_all (\<lambda>op. \<not> sets_payment_method op) ops"
    and "ord = fold (run_order_op e s) ops ord0"
  shows "process_payment e' s' ord = (Inl (ValueError ''Payment method not set''), ord) \<and>
         status ord = (if Cancel_order \<in> set ops then ''Cancelled'' else ''Pending'')"
proof -
  from Order_init_status[OF assms(1)]
  have i: "payment_method ord0 = None" "status ord0 = ''Pending''" by simp_all
  from i have d: "status ord0 = ''Pending'' \<or> status ord0 = ''Cancelled''" by simp
  from fold_run_order_op_no_method[OF assms(2) i(1) d, of e s] assms(3) i(2)
  have "payment_method ord = None"
    and "status ord = (if Cancel_order \<in> set ops then ''Cancelled'' else ''Pending'')"
    by simp_all
  then show ?thesis by (simp add: process_payment_def)
qed

theorem process_payment_without_method_witness:
  "process_payment demo_env (fst demo_cart)
      (fold (run_order_op demo_env (fst demo_cart)) [Ship_order, Process_payment]
         (demo_order [1] ''Pending''))
     = (Inl (ValueError ''Payment method not set''), demo_order [1] ''Pending'')"
proof -
  obtain s1 where i: "Order_init ''order-1'' 1 demo_user (snd demo_cart) demo_address (fst demo_cart)
      = (Inr (demo_order [1] ''Pending''), s1)"
    using demo_ordered_order by (metis prod.collapse)
  have n: "list_all (\<lambda>op. \<not> sets_payment_method op) [Ship_order, Process_payment]" by simp
  have f: "fold (run_order_op demo_env (fst demo_cart)) [Ship_order, Process_payment]
         (demo_order [1] ''Pending'') = demo_order [1] ''Pending''"
    by (simp add: demo_order_def ship_order_def process_payment_def)
  from process_payment_without_method[OF i n refl, of demo_env "fst demo_cart" demo_env "fst demo_cart"] f
  show ?thesis by simp
qed

text \<open>
  An order that was cancelled before \<open>process_payment\<close>: the call raises and the status
  is Cancelled, not Pending.
\<close>

theorem process_payment_counterexample:
  "fst (Order_init ''order-1'' 1 demo_user (snd demo_cart) demo_address (fst demo_cart))
     = Inr (demo_order [1] ''Pending'') \<and>
   cancel_order (demo_order [1] ''Pending'') = (Inr (), demo_order [1] ''Cancelled'') \<and>
   process_payment demo_env (fst demo_cart) (demo_order [1] ''Cancelled'')
     = (Inl (ValueError ''Payment method not set''), demo_order [1] ''Cancelled'') \<and>
   status (demo_order [1] ''Cancelled'') \<noteq> ''Pending''"
  by code_simp

section \<open>The order: total\<close>

lemma Money_init_usd:
  "\<not> flt a (Fin 0) \<Longrightarrow> Money_init a ''USD'' = Inr \<lparr>amount = py_round2 a, currency = ''USD''\<rparr>"
  by (simp add: Money_init_def upper_USD)

lemma Money_add_usd:
  assumes "money_ok x" and "money_ok y" and "currency x = ''USD''" and "currency y = ''USD''"
  shows "Money_add x y = Inr \<lparr>amount = py_round2 (fadd (amount x) (amount y)), currency = ''USD''\<rparr>"
proof -
  from assms(1,2) have "\<not> flt (fadd (amount x) (amount y)) (Fin 0)"
    unfolding money_ok_def by (rule fadd_not_neg)
  then show ?thesis using assms(3,4) by (simp add: Money_add_def Money_init_usd)
qed

lemma money_ok_round: "\<not> flt a (Fin 0) \<Longrightarrow> money_ok \<lparr>amount = py_round2 a, currency = c\<rparr>"
  by (simp add: money_ok_def py_round2_not_neg)

lemma line_product_not_neg:
  assumes "usd_line s r"
  shows "\<not> flt (fmul (amount (price (products s (product (cart_items s r)))))
                      (fl (of_int (quantity (cart_items s r))))) (Fin 0)"
proof -
  from assms have q: "0 \<le> quantity (cart_items s r)" by (simp add: usd_line_def)
  have "\<not> flt (fl (of_int (quantity (cart_items s r)))) (Fin 0)"
    using q by (intro fl_not_neg) simp
  moreover from assms have "\<not> flt (amount (price (products s (product (cart_items s r))))) (Fin 0)"
    by (simp add: usd_line_def money_ok_def)
  ultimately show ?thesis by (intro fmul_not_neg)
qed

lemma total_price_usd:
  assumes "usd_line s r"
  shows "total_price s (cart_items s r) = Inr \<lparr>amount = line_total s r, currency = ''USD''\<rparr>"
proof -
  from assms have q: "\<not> quantity (cart_items s r) < 0"
    and f: "fits_float (quantity (cart_items s r))"
    and c: "currency (price (products s (product (cart_items s r)))) = ''USD''"
    by (simp_all add: usd_line_def)
  from q c int_to_float_fits[OF f] line_product_not_neg[OF assms] show ?thesis
    by (simp add: total_price_def Money_mul_def Money_init_usd line_total_def)
qed

lemma line_total_not_neg: "usd_line s r \<Longrightarrow> \<not> flt (line_total s r) (Fin 0)"
  unfolding line_total_def by (intro py_round2_not_neg line_product_not_neg)

lemma sum_total_price_usd:
  assumes "list_all (usd_line s) rs" and "money_ok acc" and "currency acc = ''USD''"
  shows "sum_total_price s acc rs =
           Inr \<lparr>amount = foldl (\<lambda>acc r. py_round2 (fadd acc (line_total s r))) (amount acc) rs,
                currency = ''USD''\<rparr> \<and>
         \<not> flt (foldl (\<lambda>acc r. py_round2 (fadd acc (line_total s r))) (amount acc) rs) (Fin 0)"
  using assms
proof (induction rs arbitrary: acc)
  case Nil
  then show ?case by (simp add: money_ok_def)
next
  case (Cons r rs)
  from Cons.prems have l: "usd_line s r" and ls: "list_all (usd_line s) rs" by simp_all
  let ?t = "\<lparr>amount = line_total s r, currency = ''USD''\<rparr>"
  let ?acc = "\<lparr>amount = py_round2 (fadd (amount acc) (line_total s r)), currency = ''USD''\<rparr>"
  have t: "money_ok ?t" using line_total_not_neg[OF l] by (simp add: money_ok_def)
  have a: "Money_add acc ?t = Inr ?acc"
    using Money_add_usd[OF Cons.prems(2) t Cons.prems(3)] by simp
  have "\<not> flt (fadd (amount acc) (line_total s r)) (Fin 0)"
    using Cons.prems(2) line_total_not_neg[OF l] unfolding money_ok_def by (rule fadd_not_neg)
  then have ok: "money_ok ?acc" by (rule money_ok_round)
  from Cons.IH[OF ls ok] total_price_usd[OF l] a show ?case by simp
qed

lemma line_weights_usd:
  "list_all (usd_line s) rs \<Longrightarrow>
   \<exists>ws. line_weights s rs = Inr ws \<and> map (\<lambda>r. line_weight s (cart_items s r)) rs = map Inr ws"
proof (induction rs)
  case Nil
  then show ?case by simp
next
  case (Cons r rs)
  from Cons.prems have l: "usd_line s r" and ls: "list_all (usd_line s) rs" by simp_all
  from l obtain w where w: "get_shipping_weight (products s (product (cart_items s r))) = Inr w"
    by (cases "get_shipping_weight (products s (product (cart_items s r)))")
       (simp_all add: usd_line_def)
  from l have "fits_float (quantity (cart_items s r))" by (simp add: usd_line_def)
  from int_to_float_fits[OF this] w
  have "\<exists>v. line_weight s (cart_items s r) = Inr v" by (simp add: line_weight_def)
  with Cons.IH[OF ls] show ?case by auto
qed

lemma py_round2_zero: "py_round2 (Fin 0) = Fin 0"
  by code_simp

lemma shipping_costs:
  "py_round2 (fl (599 / 100)) = fl (599 / 100)"
  "py_round2 (fl (999 / 100)) = fl (999 / 100)"
  "py_round2 (fl (1599 / 100)) = fl (1599 / 100)"
  by code_simp+

text \<open>
  C4, as the code has it. For an order whose lines are priced in USD, \<open>total_amount\<close> is
  built, and it is the subtotal plus shipping plus tax in the arithmetic of \<open>Money\<close>
  (each sum is a float sum rounded to two decimal places), where the subtotal is the sum
  of the line totals, shipping is 5.99 for a total shipping weight up to 1 lb, 9.99 up
  to 5 lb and 15.99 otherwise, and the tax is the subtotal times 0.085 rounded to two
  decimal places.
\<close>

theorem Order_total_amount_usd:
  assumes "list_all (usd_line s) (order_items ord)"
  shows "\<exists>ws. map (\<lambda>r. line_weight s (cart_items s r)) (order_items ord) = map Inr ws \<and>
           total_weight e s ord = Inr (float_sum e ws) \<and>
           Order_total_amount e s ord =
             Inr \<lparr>amount =
                    py_round2
                      (fadd
                        (py_round2
                          (fadd (subtotal s ord)
                                (if fle (float_sum e ws) (Fin 1) then fl (599 / 100)
                                 else if fle (float_sum e ws) (Fin 5) then fl (999 / 100)
                                 else fl (1599 / 100))))
                        (py_round2 (fmul (subtotal s ord) (fl (85 / 1000))))),
                  currency = ''USD''\<rparr>"
proof -
  from line_weights_usd[OF assms] obtain ws where ws: "line_weights s (order_items ord) = Inr ws"
    and wm: "map (\<lambda>r. line_weight s (cart_items s r)) (order_items ord) = map Inr ws"
    by blast
  define w where "w = float_sum e ws"
  define ship where "ship = (if fle w (Fin 1) then fl (599 / 100)
                             else if fle w (Fin 5) then fl (999 / 100) else fl (1599 / 100))"
  define tax where "tax = py_round2 (fmul (subtotal s ord) (fl (85 / 1000)))"
  have tw: "total_weight e s ord = Inr w" by (simp add: total_weight_def ws w_def)
  have z: "Money_init (Fin 0) ''USD'' = Inr \<lparr>amount = Fin 0, currency = ''USD''\<rparr>"
    by (simp add: Money_init_usd py_round2_zero)
  have zok: "money_ok \<lparr>amount = Fin 0, currency = ''USD''\<rparr>" by (simp add: money_ok_def)
  from sum_total_price_usd[OF assms zok]
  have sub: "sum_total_price s \<lparr>amount = Fin 0, currency = ''USD''\<rparr> (order_items ord)
               = Inr \<lparr>amount = subtotal s ord, currency = ''USD''\<rparr>"
    and s0: "\<not> flt (subtotal s ord) (Fin 0)"
    by (simp_all add: subtotal_def)
  have shipn: "\<not> flt ship (Fin 0)" unfolding ship_def by (simp add: fl_not_neg)
  have shipr: "py_round2 ship = ship" unfolding ship_def by (simp add: shipping_costs)
  have ship: "calculate_shipping e s ord = Inr \<lparr>amount = ship, currency = ''USD''\<rparr>"
    using shipn shipr unfolding calculate_shipping_def tw
    by (simp add: Money_init_usd ship_def[symmetric])
  have "\<not> flt (fl (85 / 1000)) (Fin 0)" by (intro fl_not_neg) simp
  with s0 have tn: "\<not> flt (fmul (subtotal s ord) (fl (85 / 1000))) (Fin 0)"
    by (intro fmul_not_neg)
  then have taxm: "calculate_tax \<lparr>amount = subtotal s ord, currency = ''USD''\<rparr>
               = Inr \<lparr>amount = tax, currency = ''USD''\<rparr>"
    by (simp add: calculate_tax_def Money_init_usd tax_def)
  have subok: "money_ok \<lparr>amount = subtotal s ord, currency = ''USD''\<rparr>"
    using s0 by (simp add: money_ok_def)
  have shipok: "money_ok \<lparr>amount = ship, currency = ''USD''\<rparr>" using shipn by (simp add: money_ok_def)
  have taxok: "money_ok \<lparr>amount = tax, currency = ''USD''\<rparr>"
    unfolding tax_def using tn by (rule money_ok_round)
  have a1: "Money_add \<lparr>amount = subtotal s ord, currency = ''USD''\<rparr> \<lparr>amount = ship, currency = ''USD''\<rparr>
      = Inr \<lparr>amount = py_round2 (fadd (subtotal s ord) ship), currency = ''USD''\<rparr>"
    using Money_add_usd[OF subok shipok] by simp
  have "\<not> flt (fadd (subtotal s ord) ship) (Fin 0)" using s0 shipn by (rule fadd_not_neg)
  then have a1ok: "money_ok \<lparr>amount = py_round2 (fadd (subtotal s ord) ship), currency = ''USD''\<rparr>"
    by (rule money_ok_round)
  have a2: "Money_add \<lparr>amount = py_round2 (fadd (subtotal s ord) ship), currency = ''USD''\<rparr>
                \<lparr>amount = tax, currency = ''USD''\<rparr>
      = Inr \<lparr>amount = py_round2 (fadd (py_round2 (fadd (subtotal s ord) ship)) tax),
             currency = ''USD''\<rparr>"
    using Money_add_usd[OF a1ok taxok] by simp
  have "Order_total_amount e s ord =
      Inr \<lparr>amount = py_round2 (fadd (py_round2 (fadd (subtotal s ord) ship)) tax),
             currency = ''USD''\<rparr>"
    unfolding Order_total_amount_def by (simp only: z sub ship taxm a1 a2 sum.case)
  with tw wm show ?thesis unfolding ship_def tax_def w_def by blast
qed

lemma shirt_ordered_order:
  "fst (Order_init ''order-1'' 1 demo_user (snd shirt_cart) demo_address (fst shirt_cart))
     = Inr (demo_order [1] ''Pending'')"
  by code_simp

text \<open>
  An order for one item of 0.2 lb and three of 1.6 lb: with the sum from left to right
  the total weight is the float above 5, and the shipping is 15.99.
\<close>

lemma gadget_shipping:
  "fst (Order_init ''order-1'' 1 demo_user (snd gadget_cart) demo_address (fst gadget_cart))
     = Inr (demo_order [2, 3] ''Pending'') \<and>
   total_weight demo_env gadget_ordered (demo_order [2, 3] ''Pending'')
     = Inr (Fin (5629499534213121 / 1125899906842624)) \<and>
   calculate_shipping demo_env gadget_ordered (demo_order [2, 3] ''Pending'')
     = Inr \<lparr>amount = fl (1599 / 100), currency = ''USD''\<rparr>"
  by code_simp

theorem Order_total_amount_usd_witness:
  "list_all (usd_line shirt_ordered) (order_items (demo_order [1] ''Pending'')) \<and>
   subtotal shirt_ordered (demo_order [1] ''Pending'') = Fin 5 \<and>
   total_weight demo_env shirt_ordered (demo_order [1] ''Pending'') = Inr (fl (8 / 10)) \<and>
   py_round2 (fmul (Fin 5) (fl (85 / 1000))) = fl (43 / 100) \<and>
   Order_total_amount demo_env shirt_ordered (demo_order [1] ''Pending'') =
     Inr \<lparr>amount = fl (1142 / 100), currency = ''USD''\<rparr>"
proof -
  let ?o = "demo_order [1] ''Pending''"
  have h: "list_all (usd_line shirt_ordered) (order_items ?o)" by code_simp
  have s: "subtotal shirt_ordered ?o = Fin 5" by code_simp
  have w: "total_weight demo_env shirt_ordered ?o = Inr (fl (8 / 10))" by code_simp
  have t: "py_round2 (fmul (Fin 5) (fl (85 / 1000))) = fl (43 / 100)" by code_simp
  have v: "py_round2 (fadd (py_round2 (fadd (Fin 5)
              (if fle (fl (8 / 10)) (Fin 1) then fl (599 / 100)
               else if fle (fl (8 / 10)) (Fin 5) then fl (999 / 100) else fl (1599 / 100))))
              (fl (43 / 100))) = fl (1142 / 100)"
    by code_simp
  from Order_total_amount_usd[OF h, of demo_env] obtain ws
    where a: "total_weight demo_env shirt_ordered ?o = Inr (float_sum demo_env ws)"
      and b: "Order_total_amount demo_env shirt_ordered ?o =
             Inr \<lparr>amount =
                    py_round2
                      (fadd
                        (py_round2
                          (fadd (subtotal shirt_ordered ?o)
                                (if fle (float_sum demo_env ws) (Fin 1) then fl (599 / 100)
                                 else if fle (float_sum demo_env ws) (Fin 5) then fl (999 / 100)
                                 else fl (1599 / 100))))
                        (py_round2 (fmul (subtotal shirt_ordered ?o) (fl (85 / 1000))))),
                  currency = ''USD''\<rparr>"
    by blast
  from a w have fs: "float_sum demo_env ws = fl (8 / 10)" by simp
  from b have "Order_total_amount demo_env shirt_ordered ?o =
      Inr \<lparr>amount = fl (1142 / 100), currency = ''USD''\<rparr>"
    unfolding fs s t v .
  with h s w t show ?thesis by (simp only: simp_thms)
qed

text \<open>
  An order for a book priced in EUR: the sum starts from \<open>Money(0)\<close>, which is in USD,
  and \<open>total_amount\<close> raises.
\<close>

theorem Order_total_amount_counterexample:
  "fst (Order_init ''order-1'' 1 demo_user (snd euro_cart) demo_address (fst euro_cart))
     = Inr (demo_order [1] ''Pending'') \<and>
   Order_total_amount demo_env euro_ordered (demo_order [1] ''Pending'')
     = Inl (ValueError ''Cannot add USD and EUR'')"
  by code_simp

section \<open>The order: snapshot of the cart\<close>

text \<open>
  The constructor of \<open>Order\<close> builds a new \<open>CartItem\<close> for every line of the cart; the
  products stay shared. What a cart operation assigns to is a line of the cart or a
  new object, never a line of the order; \<open>apply_discount_to_item\<close>, the one method that
  would assign to a shared product, raises at its instance check before the assignment.
\<close>

lemma CartItem_init_copy:
  "CartItem_init s (product (cart_items s r)) (quantity (cart_items s r)) = Inr ci \<Longrightarrow>
   ci = cart_items s r"
  by (auto simp: CartItem_init_def split: if_splits)

lemma allocated_new_item: "allocated s rs \<Longrightarrow> allocated (new_item ci s) rs"
  by (induction rs) (auto simp: allocated_def new_item_def)

lemma new_item_old: "r < next_item s \<Longrightarrow> cart_items (new_item ci s) r = cart_items s r"
  by (simp add: new_item_def)

lemma copy_items_frame:
  assumes "copy_items s rs = Inr (rs', s')"
  shows "products s' = products s \<and> next_item s' = next_item s + length rs \<and>
         rs' = [next_item s ..< next_item s + length rs] \<and>
         (\<forall>r. r < next_item s \<longrightarrow> cart_items s' r = cart_items s r)"
  using assms
proof (induction rs arbitrary: s rs' s')
  case Nil
  then show ?case by simp
next
  case (Cons r rs)
  from Cons.prems obtain ci rs1 where
    ci: "CartItem_init s (product (cart_items s r)) (quantity (cart_items s r)) = Inr ci"
    and rec: "copy_items (new_item ci s) rs = Inr (rs1, s')"
    and rs': "rs' = next_item s # rs1"
    by (auto split: sum.splits prod.splits)
  from Cons.IH[OF rec]
  have p: "products s' = products (new_item ci s)"
    and n: "next_item s' = next_item (new_item ci s) + length rs"
    and l: "rs1 = [next_item (new_item ci s) ..< next_item (new_item ci s) + length rs]"
    and k: "\<forall>r. r < next_item (new_item ci s) \<longrightarrow> cart_items s' r = cart_items (new_item ci s) r"
    by simp_all
  have nn: "next_item (new_item ci s) = Suc (next_item s)" by (simp add: new_item_def)
  have "products s' = products s" using p by (simp add: new_item_def)
  moreover have "next_item s' = next_item s + length (r # rs)" using n nn by simp
  moreover have "rs' = [next_item s ..< next_item s + length (r # rs)]"
  proof -
    have e: "Suc (next_item s) + length rs = next_item s + length (r # rs)" by simp
    have u: "[next_item s ..< next_item s + length (r # rs)] =
             next_item s # [Suc (next_item s) ..< next_item s + length (r # rs)]"
      by (rule upt_conv_Cons) simp
    from l have "rs1 = [Suc (next_item s) ..< next_item s + length (r # rs)]"
      unfolding nn e .
    with rs' show ?thesis unfolding u by (simp only:)
  qed
  moreover have "\<forall>x. x < next_item s \<longrightarrow> cart_items s' x = cart_items s x"
    using k nn by (simp add: new_item_def)
  ultimately show ?case by blast
qed

lemma copy_items_lines:
  assumes "copy_items s rs = Inr (rs', s')" and "allocated s rs"
  shows "map (cart_items s') rs' = map (cart_items s) rs"
  using assms
proof (induction rs arbitrary: s rs' s')
  case Nil
  then show ?case by simp
next
  case (Cons r rs)
  from Cons.prems obtain ci rs1 where
    ci: "CartItem_init s (product (cart_items s r)) (quantity (cart_items s r)) = Inr ci"
    and rec: "copy_items (new_item ci s) rs = Inr (rs1, s')"
    and rs': "rs' = next_item s # rs1"
    by (auto split: sum.splits prod.splits)
  from Cons.prems(2) have ar: "allocated s rs" and r: "r < next_item s"
    by (simp_all add: allocated_def)
  have same: "map (cart_items (new_item ci s)) rs = map (cart_items s) rs"
    using ar by (induction rs) (auto simp: allocated_def new_item_def)
  from Cons.IH[OF rec allocated_new_item[OF ar]] same
  have tl: "map (cart_items s') rs1 = map (cart_items s) rs" by simp
  from copy_items_frame[OF rec]
  have "cart_items s' (next_item s) = cart_items (new_item ci s) (next_item s)"
    by (simp add: new_item_def)
  then have hd: "cart_items s' (next_item s) = cart_items s r"
    using CartItem_init_copy[OF ci] by (simp add: new_item_def)
  from hd tl rs' show ?case by simp
qed

lemma Order_init_apart:
  assumes "allocated s (items c)" and "Order_init oid now u c addr s = (Inr ord, s1)"
  shows "apart s1 c ord \<and> products s1 = products s \<and> order_lines s1 ord = cart_lines (s, c)"
proof -
  from assms(2) have cp: "copy_items s (items c) = Inr (order_items ord, s1)"
    by (auto simp: Order_init_def split: if_splits sum.splits prod.splits)
  note f = copy_items_frame[OF cp]
  from f have oi: "order_items ord = [next_item s ..< next_item s + length (items c)]"
    and n: "next_item s1 = next_item s + length (items c)" by simp_all
  have a1: "allocated s1 (items c)" using assms(1) n by (auto simp: allocated_def list_all_iff)
  have a2: "allocated s1 (order_items ord)" using oi n by (auto simp: allocated_def list_all_iff)
  have a3: "list_all (\<lambda>r. r \<notin> set (items c)) (order_items ord)"
    using assms(1) oi by (auto simp: allocated_def list_all_iff)
  from a1 a2 a3 f copy_items_lines[OF cp assms(1)] show ?thesis
    by (simp add: apart_def order_lines_def cart_lines_def)
qed

lemma apartD:
  assumes "apart s c ord" and "r \<in> set (order_items ord)"
  shows "r \<notin> set (items c)" and "r < next_item s"
  using assms by (auto simp: apart_def allocated_def list_all_iff)

lemma add_item_frame:
  assumes "apart s c ord" and "snd (add_item p q (s, c)) = (s', c')"
  shows "apart s' c' ord \<and> same_for ord s s'"
proof (cases "in_stock (products s p)")
  case False
  with assms show ?thesis by (simp add: add_item_def same_for_def list_all_iff)
next
  case True
  show ?thesis
  proof (cases "find_line s p (items c)")
    case (Some r)
    from find_line_mem[OF Some] have r: "r \<in> set (items c)" .
    from assms(2) True Some
    have s': "s' = s\<lparr>cart_items := (cart_items s)
               (r := (cart_items s r)\<lparr>quantity := quantity (cart_items s r) + q\<rparr>)\<rparr>"
      and c': "c' = c" by (simp_all add: add_item_def)
    have "same_for ord s s'" using s' r apartD(1)[OF assms(1)]
      by (auto simp: same_for_def list_all_iff)
    moreover have "apart s' c' ord" using assms(1) s' c' by (simp add: apart_def allocated_def)
    ultimately show ?thesis by simp
  next
    case None
    show ?thesis
    proof (cases "CartItem_init s p q")
      case (Inl e)
      with assms True None show ?thesis by (simp add: add_item_def same_for_def list_all_iff)
    next
      case (Inr ci)
      with assms(2) True None
      have s': "s' = new_item ci s" and c': "c' = c\<lparr>items := items c @ [next_item s]\<rparr>"
        by (simp_all add: add_item_def)
      have "same_for ord s s'" using s' apartD(2)[OF assms(1)]
        by (auto simp: same_for_def list_all_iff new_item_def)
      moreover have "apart s' c' ord" using assms(1) s' c'
        by (auto simp: apart_def allocated_def list_all_iff new_item_def)
      ultimately show ?thesis by simp
    qed
  qed
qed

lemma remove_item_frame:
  assumes "apart s c ord" and "snd (remove_item p (s, c)) = (s', c')"
  shows "apart s' c' ord \<and> same_for ord s s'"
  using assms by (auto simp: remove_item_def apart_def allocated_def list_all_iff same_for_def)

lemma update_quantity_frame:
  assumes "apart s c ord" and "snd (update_quantity p q (s, c)) = (s', c')"
  shows "apart s' c' ord \<and> same_for ord s s'"
proof (cases "q \<le> 0")
  case True
  with assms(2) have "snd (remove_item p (s, c)) = (s', c')" by (simp add: update_quantity_def)
  from remove_item_frame[OF assms(1) this] show ?thesis .
next
  case False
  show ?thesis
  proof (cases "find_line s p (items c)")
    case None
    with assms False show ?thesis by (simp add: update_quantity_def same_for_def list_all_iff)
  next
    case (Some r)
    from find_line_mem[OF Some] have r: "r \<in> set (items c)" .
    from assms(2) False Some
    have s': "s' = s\<lparr>cart_items := (cart_items s)(r := (cart_items s r)\<lparr>quantity := q\<rparr>)\<rparr>"
      and c': "c' = c" by (simp_all add: update_quantity_def)
    have "same_for ord s s'" using s' r apartD(1)[OF assms(1)]
      by (auto simp: same_for_def list_all_iff)
    moreover have "apart s' c' ord" using assms(1) s' c' by (simp add: apart_def allocated_def)
    ultimately show ?thesis by simp
  qed
qed

lemma clear_frame:
  assumes "apart s c ord" and "snd (clear (s, c)) = (s', c')"
  shows "apart s' c' ord \<and> same_for ord s s'"
  using assms by (auto simp: clear_def apart_def allocated_def list_all_iff same_for_def)

lemma apply_discount_to_item_frame:
  assumes "apart s c ord" and "snd (apply_discount_to_item p pct (s, c)) = (s', c')"
  shows "apart s' c' ord \<and> same_for ord s s'"
  using assms
  by (auto simp: apply_discount_to_item_def isinstance_Discountable_def same_for_def
      list_all_iff Let_def split: option.splits)

lemma run_cart_op_frame:
  assumes "apart s c ord" and "run_cart_op op (s, c) = (s', c')"
  shows "apart s' c' ord \<and> same_for ord s s'"
proof (cases op)
  case (Add_item p q)
  with assms add_item_frame show ?thesis by simp
next
  case (Remove_item p)
  with assms remove_item_frame show ?thesis by simp
next
  case (Update_quantity p q)
  with assms update_quantity_frame show ?thesis by simp
next
  case Clear
  with assms clear_frame show ?thesis by simp
next
  case (Apply_discount_to_item p pct)
  with assms apply_discount_to_item_frame show ?thesis by simp
qed

lemma same_for_trans: "same_for ord s s' \<Longrightarrow> same_for ord s' s'' \<Longrightarrow> same_for ord s s''"
  by (auto simp: same_for_def list_all_iff)

lemma fold_run_cart_op_frame:
  assumes "apart s c ord"
  shows "same_for ord s (fst (fold run_cart_op ops (s, c)))"
  using assms
proof (induction ops arbitrary: s c)
  case Nil
  then show ?case by (simp add: same_for_def list_all_iff)
next
  case (Cons op ops)
  obtain s' c' where st: "run_cart_op op (s, c) = (s', c')" by (cases "run_cart_op op (s, c)")
  from run_cart_op_frame[OF Cons.prems st]
  have a: "apart s' c' ord" and f: "same_for ord s s'" by simp_all
  from same_for_trans[OF f Cons.IH[OF a]] st show ?case by simp
qed

lemma sum_total_price_same:
  assumes "products s' = products s" and "list_all (\<lambda>r. cart_items s' r = cart_items s r) rs"
  shows "sum_total_price s' acc rs = sum_total_price s acc rs"
  using assms(2)
proof (induction rs arbitrary: acc)
  case Nil
  then show ?case by simp
next
  case (Cons r rs)
  then show ?case using assms(1) by (simp add: total_price_def split: sum.splits)
qed

lemma line_weights_same:
  assumes "products s' = products s" and "list_all (\<lambda>r. cart_items s' r = cart_items s r) rs"
  shows "line_weights s' rs = line_weights s rs"
  using assms(2)
proof (induction rs)
  case Nil
  then show ?case by simp
next
  case (Cons r rs)
  then have t: "line_weights s' rs = line_weights s rs"
    and h: "line_weight s' (cart_items s' r) = line_weight s (cart_items s r)"
    using assms(1) by (simp_all add: line_weight_def)
  show ?case unfolding line_weights.simps t h by (rule refl)
qed

lemma total_weight_same:
  assumes "same_for ord s s'"
  shows "total_weight e s' ord = total_weight e s ord"
  using assms by (simp add: total_weight_def same_for_def line_weights_same)

lemma Order_total_amount_same:
  assumes "same_for ord s s'"
  shows "Order_total_amount e s' ord = Order_total_amount e s ord"
proof -
  have p: "sum_total_price s' acc (order_items ord) = sum_total_price s acc (order_items ord)"
    for acc using assms by (simp add: same_for_def sum_total_price_same)
  have w: "calculate_shipping e s' ord = calculate_shipping e s ord"
    by (simp add: calculate_shipping_def total_weight_same[OF assms])
  show ?thesis unfolding Order_total_amount_def p w by (rule refl)
qed

lemma order_lines_same: "same_for ord s s' \<Longrightarrow> order_lines s' ord = order_lines s ord"
  by (auto simp: same_for_def order_lines_def list_all_iff)

lemma copy_items_positive:
  assumes "copy_items s rs = Inr (rs', s')" and "allocated s rs"
  shows "list_all (\<lambda>r. 0 < quantity (cart_items s r)) rs"
  using assms
proof (induction rs arbitrary: s rs' s')
  case Nil
  then show ?case by simp
next
  case (Cons r rs)
  from Cons.prems obtain ci rs1 where
    ci: "CartItem_init s (product (cart_items s r)) (quantity (cart_items s r)) = Inr ci"
    and rec: "copy_items (new_item ci s) rs = Inr (rs1, s')"
    by (auto split: sum.splits prod.splits)
  from Cons.prems(2) have ar: "allocated s rs" by (simp add: allocated_def)
  from ci have q: "0 < quantity (cart_items s r)"
    by (auto simp: CartItem_init_def split: if_splits)
  from Cons.IH[OF rec allocated_new_item[OF ar]] ar
  have "list_all (\<lambda>r. 0 < quantity (cart_items s r)) rs"
    by (fastforce simp: list_all_iff allocated_def new_item_def)
  with q show ?case by simp
qed

lemma Order_init_positive:
  assumes "allocated s (items c)" and "Order_init oid now u c addr s = (Inr ord, s1)"
  shows "list_all (\<lambda>ci. 0 < quantity ci) (order_lines s1 ord)"
proof -
  from assms(2) have cp: "copy_items s (items c) = Inr (order_items ord, s1)"
    by (auto simp: Order_init_def split: if_splits sum.splits prod.splits)
  from Order_init_apart[OF assms] have "order_lines s1 ord = cart_lines (s, c)" by simp
  with copy_items_positive[OF cp assms(1)] show ?thesis
    by (simp add: cart_lines_def list_all_iff)
qed

text \<open>
  The lines of a new cart are allocated, vacuously, and every cart operation keeps them
  so: the hypothesis of the theorem below holds of every cart that the methods build.
\<close>

lemma run_cart_op_allocated:
  assumes "allocated s (items c)" and "run_cart_op op (s, c) = (s', c')"
  shows "allocated s' (items c')"
proof -
  from assms(1) have "apart s c (demo_order [] ''Pending'')"
    by (simp add: apart_def allocated_def demo_order_def)
  from run_cart_op_frame[OF this assms(2)] show ?thesis by (simp add: apart_def)
qed

lemma fold_run_cart_op_allocated:
  assumes "allocated (fst sc) (items (snd sc))"
  shows "allocated (fst (fold run_cart_op ops sc)) (items (snd (fold run_cart_op ops sc)))"
  using assms
proof (induction ops arbitrary: sc)
  case Nil
  then show ?case by simp
next
  case (Cons op ops)
  obtain s c where sc: "sc = (s, c)" by (cases sc)
  obtain s' c' where st: "run_cart_op op (s, c) = (s', c')" by (cases "run_cart_op op (s, c)")
  from Cons.prems sc have "allocated s (items c)" by simp
  from run_cart_op_allocated[OF this st] have "allocated (fst (s', c')) (items (snd (s', c')))" by simp
  from Cons.IH[OF this] sc st show ?case by simp
qed

lemma new_cart_allocated: "allocated s (items (ShoppingCart_init u now))"
  by (simp add: allocated_def ShoppingCart_init_def)

text \<open>
  C2. For an order built from a cart, the lines of the order are those the cart had at
  that moment, and after any sequence of \<open>add_item\<close>, \<open>remove_item\<close>,
  \<open>update_quantity\<close>, \<open>clear\<close> and \<open>apply_discount_to_item\<close> on the cart, whatever each
  call returns or raises, the lines of the order and its \<open>total_amount\<close> are what they
  were.
\<close>

theorem order_keeps_snapshot:
  assumes "allocated s (items c)"
    and "Order_init oid now u c addr s = (Inr ord, s1)"
  shows "order_lines s1 ord = cart_lines (s, c) \<and>
         order_lines (fst (fold run_cart_op ops (s1, c))) ord = order_lines s1 ord \<and>
         Order_total_amount e (fst (fold run_cart_op ops (s1, c))) ord
           = Order_total_amount e s1 ord"
proof -
  from Order_init_apart[OF assms]
  have a: "apart s1 c ord" and l: "order_lines s1 ord = cart_lines (s, c)" by simp_all
  note f = fold_run_cart_op_frame[OF a, of ops]
  from l order_lines_same[OF f] Order_total_amount_same[OF f, of e] show ?thesis by simp
qed

theorem order_keeps_snapshot_witness:
  "cart_lines
     (fold run_cart_op
        [Add_item 0 3, Update_quantity 0 7, Apply_discount_to_item 0 (Fin 10), Add_item 1 1,
         Remove_item 0, Clear]
        (demo_ordered, snd demo_cart)) = [] \<and>
   order_lines
     (fst (fold run_cart_op
        [Add_item 0 3, Update_quantity 0 7, Apply_discount_to_item 0 (Fin 10), Add_item 1 1,
         Remove_item 0, Clear]
        (demo_ordered, snd demo_cart)))
     (demo_order [1] ''Pending'') = [\<lparr>product = 0, quantity = 2\<rparr>] \<and>
   Order_total_amount demo_env
     (fst (fold run_cart_op
        [Add_item 0 3, Update_quantity 0 7, Apply_discount_to_item 0 (Fin 10), Add_item 1 1,
         Remove_item 0, Clear]
        (demo_ordered, snd demo_cart)))
     (demo_order [1] ''Pending'') = Inr \<lparr>amount = fl (7507 / 100), currency = ''USD''\<rparr>"
proof -
  let ?ops = "[Add_item 0 3, Update_quantity 0 7, Apply_discount_to_item 0 (Fin 10), Add_item 1 1,
         Remove_item 0, Clear]"
  have a: "allocated (fst demo_cart) (items (snd demo_cart))" by code_simp
  have i: "Order_init ''order-1'' 1 demo_user (snd demo_cart) demo_address (fst demo_cart)
             = (Inr (demo_order [1] ''Pending''), demo_ordered)"
    using demo_ordered_order unfolding demo_ordered_def by (metis prod.collapse)
  have l: "order_lines demo_ordered (demo_order [1] ''Pending'') = [\<lparr>product = 0, quantity = 2\<rparr>]"
    by code_simp
  have t: "Order_total_amount demo_env demo_ordered (demo_order [1] ''Pending'')
             = Inr \<lparr>amount = fl (7507 / 100), currency = ''USD''\<rparr>"
    by code_simp
  have c: "cart_lines (fold run_cart_op ?ops (demo_ordered, snd demo_cart)) = []"
    by code_simp
  from order_keeps_snapshot[OF a i, of ?ops demo_env] l t c show ?thesis by (simp only:)
qed

end
